theory Spec2Isabelle
  imports Complex_Main "HOL-Library.Sublist"
begin

section \<open>Python values used by the scripts\<close>

text \<open>
  A Python \<open>str\<close> is a \<^typ>\<open>string\<close>: the bytes of its UTF-8 encoding. The substring test
  \<open>key in s\<close> of Python is \<^const>\<open>sublist\<close>: \<open>s = ps @ key @ ss\<close> for some \<open>ps\<close>, \<open>ss\<close>; a
  code point sequence occurs in another exactly when its encoding occurs in the encoding of
  the other. \<open>str.lower()\<close> is Python's own function and knows all of Unicode: it is not
  defined here but taken as a parameter, \<open>lower\<close>, by the functions that call it.
\<close>

text \<open>\<open>str(n)\<close> for a Python int: decimal digits, a minus sign for a negative number.\<close>

definition digit_char :: "nat \<Rightarrow> char" where
  "digit_char d = ''0123456789'' ! (d mod 10)"

fun str_nat :: "nat \<Rightarrow> string" where
  "str_nat n = (if n < 10 then [digit_char n] else str_nat (n div 10) @ [digit_char (n mod 10)])"

declare str_nat.simps [simp del]

definition str_int :: "int \<Rightarrow> string" where
  "str_int i = (if i < 0 then ''-'' @ str_nat (nat (- i)) else str_nat (nat i))"

section \<open>pathlib paths\<close>

text \<open>
  A \<open>Path\<close> is the list of its components below the root. \<open>p.parent\<close> drops the last
  component, \<open>p.name\<close> is the last component (empty for the root), \<open>p / c\<close> appends one.
  \<open>p.stem\<close> is the name without its last suffix: with \<open>i = name.rfind('.')\<close>, the name is cut
  at \<open>i\<close> when \<open>0 < i < len(name) - 1\<close> and is kept whole otherwise.
\<close>

type_synonym path = "string list"

definition parent :: "path \<Rightarrow> path" where
  "parent p = butlast p"

definition name :: "path \<Rightarrow> string" where
  "name p = (if p = [] then [] else last p)"

definition joinpath :: "path \<Rightarrow> string \<Rightarrow> path" where
  "joinpath p c = p @ [c]"

text \<open>\<open>s.rfind(c)\<close>: the highest index of \<open>c\<close> in \<open>s\<close>, or \<open>-1\<close>.\<close>

fun rfind :: "string \<Rightarrow> char \<Rightarrow> int" where
  "rfind [] c = - 1"
| "rfind (x # xs) c =
     (let r = rfind xs c in if 0 \<le> r then r + 1 else if x = c then 0 else - 1)"

definition stem :: "path \<Rightarrow> string" where
  "stem p =
     (let nm = name p; i = rfind nm (CHR ''.'')
      in if 0 < i \<and> i < int (length nm) - 1 then take (nat i) nm else nm)"

text \<open>\<open>str(p)\<close> of an absolute POSIX path.\<close>

definition str_path :: "path \<Rightarrow> string" where
  "str_path p = (if p = [] then ''/'' else concat (map (\<lambda>c. ''/'' @ c) p))"

section \<open>batch\_export.py: the category classifier\<close>

text \<open>
  \<open>ASSET_CATEGORIES\<close> is a dict literal; Python iterates a dict in insertion order, so the
  table is the association list of its entries in the order they are written.
\<close>

definition ASSET_CATEGORIES :: "(string \<times> string) list" where
  "ASSET_CATEGORIES =
     [(''characters'', ''Characters''),
      (''weapons'', ''Weapons''),
      (''armor'', ''Armor''),
      (''monsters'', ''Monsters''),
      (''environment'', ''Environment''),
      (''props'', ''Props''),
      (''vfx'', ''VFX''),
      (''ui'', ''UI'')]"

text \<open>The loop of \<open>get_category\<close> over the items of the table, with its early return.\<close>

fun get_category_loop :: "(string \<times> string) list \<Rightarrow> string \<Rightarrow> string \<Rightarrow> string" where
  "get_category_loop [] name_lower parent_lower = ''Misc''"
| "get_category_loop ((key, category) # items) name_lower parent_lower =
     (if sublist key name_lower \<or> sublist key parent_lower then category
      else get_category_loop items name_lower parent_lower)"

definition get_category :: "(string \<Rightarrow> string) \<Rightarrow> path \<Rightarrow> string" where
  "get_category lower filepath =
     (let name_lower = lower (stem filepath);
          parent_lower = lower (name (parent filepath))
      in get_category_loop ASSET_CATEGORIES name_lower parent_lower)"

section \<open>The scene held by Blender\<close>

text \<open>
  \<open>bpy.data\<close> holds the objects and the materials of the loaded file. An object carries a
  name, a scale and an Euler rotation (three floats each) and, by its \<open>type\<close>, a mesh, an
  armature or neither. A Python float is taken as the rational number it stands for;
  subtraction, absolute value and comparison are those of \<^typ>\<open>rat\<close>. Counts (\<open>len\<close>,
  counters) are Python ints, \<^typ>\<open>int\<close>.
\<close>

type_synonym vector = "rat \<times> rat \<times> rat"

definition components :: "vector \<Rightarrow> rat list" where
  "components v = (case v of (x, y, z) \<Rightarrow> [x, y, z])"

record polygon =
  poly_vertices :: "nat list"

record edge =
  edge_vertices :: "nat list"

record mesh =
  vertices :: "vector list"
  polygons :: "polygon list"
  edges :: "edge list"
  uv_layers :: "string list"
  has_custom_normals :: bool

record bone =
  bone_name :: string
  bone_parent :: "string option"

record armature =
  bones :: "bone list"

datatype object_data = MESH mesh | ARMATURE armature | OTHER string

record object =
  obj_name :: string
  obj_data :: object_data
  scale :: vector
  rotation_euler :: vector

record material =
  mat_name :: string
  use_nodes :: bool

record bpy_data =
  data_objects :: "object list"
  data_materials :: "material list"

text \<open>
  The formatting of a float inside an f-string is Python's own: \<open>{s:.3f}\<close> and the \<open>repr\<close>
  that \<open>{expected}\<close> and \<open>tuple(obj.scale)\<close> print. Both are parameters of the validators.
\<close>

record float_format =
  format_3f :: "rat \<Rightarrow> string"
  float_repr :: "rat \<Rightarrow> string"

definition quoted :: "string \<Rightarrow> string" where
  "quoted s = [CHR 0x27] @ s @ [CHR 0x27]"

section \<open>validate\_models.py: the structural validator\<close>

definition MAX_VERTICES_LOD0 :: int where
  "MAX_VERTICES_LOD0 = 100000"

definition MAX_BONES :: int where
  "MAX_BONES = 256"

definition EXPECTED_SCALE :: vector where
  "EXPECTED_SCALE = (1.0, 1.0, 1.0)"

definition SCALE_TOLERANCE :: rat where
  "SCALE_TOLERANCE = 0.001"

record stats =
  total_vertices :: int
  total_faces :: int
  mesh_objects :: int
  armatures :: int
  materials :: int

record object_info =
  info_name :: string
  info_vertices :: int
  info_faces :: int
  info_edges :: int

text \<open>
  The report dict while \<open>validate_file\<close> fills it, and the dict it returns: the key
  \<open>valid\<close> is added by the last assignment of \<open>validate_file\<close>. The keys \<open>file\<close> and
  \<open>path\<close> are the fields \<open>rep_file\<close> and \<open>rep_path\<close>.
\<close>

record report =
  rep_file :: string
  rep_path :: string
  objects :: "object_info list"
  issues :: "string list"
  warnings :: "string list"
  stats :: stats

record validation_report = report +
  valid :: bool

definition add_issue :: "string \<Rightarrow> report \<Rightarrow> report" where
  "add_issue msg r = r\<lparr>issues := issues r @ [msg]\<rparr>"

definition add_warning :: "string \<Rightarrow> report \<Rightarrow> report" where
  "add_warning msg r = r\<lparr>warnings := warnings r @ [msg]\<rparr>"

subsection \<open>The messages\<close>

definition scale_issue :: "float_format \<Rightarrow> string \<Rightarrow> nat \<Rightarrow> rat \<Rightarrow> rat \<Rightarrow> string" where
  "scale_issue fmt nm i s expected =
     quoted nm @ '': Scale '' @ [''XYZ'' ! i] @ ''='' @ format_3f fmt s @
     '' (expected '' @ float_repr fmt expected @ ''). Apply scale with Ctrl+A''"

definition rotation_warning :: "string \<Rightarrow> string" where
  "rotation_warning nm =
     quoted nm @ '': Has unapplied rotation. Consider Ctrl+A -> Rotation''"

definition missing_uv_issue :: "string \<Rightarrow> string" where
  "missing_uv_issue nm = quoted nm @ '': Missing UV map (required for UE5)''"

definition uv_count_warning :: "string \<Rightarrow> int \<Rightarrow> string" where
  "uv_count_warning nm n =
     quoted nm @ '': '' @ str_int n @ '' UV maps (UE5 typically uses 1-2)''"

definition ngons_warning :: "string \<Rightarrow> int \<Rightarrow> string" where
  "ngons_warning nm n =
     quoted nm @ '': '' @ str_int n @ '' ngons (triangulate for best UE5 results)''"

definition loose_warning :: "string \<Rightarrow> int \<Rightarrow> string" where
  "loose_warning nm n = quoted nm @ '': '' @ str_int n @ '' loose vertices''"

definition naming_warning :: "string \<Rightarrow> string" where
  "naming_warning nm =
     quoted nm @ '': Consider UE5 naming: SM_ (static), SK_ (skeletal)''"

definition bone_limit_issue :: "string \<Rightarrow> int \<Rightarrow> string" where
  "bone_limit_issue nm bone_count =
     quoted nm @ '': '' @ str_int bone_count @ '' bones exceeds UE5 limit ('' @
     str_int MAX_BONES @ '')''"

definition no_bones_issue :: "string \<Rightarrow> string" where
  "no_bones_issue nm = quoted nm @ '': Armature has no bones''"

definition root_bones_warning :: "string \<Rightarrow> int \<Rightarrow> string" where
  "root_bones_warning nm n =
     quoted nm @ '': Multiple root bones ('' @ str_int n @
     ''). UE5 works best with a single root''"

definition material_warning :: "string \<Rightarrow> string" where
  "material_warning nm = ''Material '' @ quoted nm @ '': not using nodes''"

definition total_vertices_issue :: "int \<Rightarrow> string" where
  "total_vertices_issue n =
     ''Total vertices ('' @ str_int n @ '') exceeds LOD0 limit ('' @
     str_int MAX_VERTICES_LOD0 @ '')''"

subsection \<open>\<open>_validate_mesh\<close>\<close>

text \<open>
  The scale loop runs over \<open>enumerate(zip(obj.scale, EXPECTED_SCALE))\<close>: triples of the
  index, the component and the expected value. The index stays below 3, so \<open>"XYZ"[i]\<close> is
  in range.
\<close>

fun check_scale :: "float_format \<Rightarrow> string \<Rightarrow> (nat \<times> rat \<times> rat) list \<Rightarrow> report \<Rightarrow> report" where
  "check_scale fmt nm [] report = report"
| "check_scale fmt nm ((i, s, expected) # rest) report =
     check_scale fmt nm rest
       (if \<bar>s - expected\<bar> > SCALE_TOLERANCE
        then add_issue (scale_issue fmt nm i s expected) report
        else report)"

definition check_rotation :: "object \<Rightarrow> report \<Rightarrow> report" where
  "check_rotation obj report =
     (if list_ex (\<lambda>r. \<bar>r\<bar> > 0.001) (components (rotation_euler obj))
      then add_warning (rotation_warning (obj_name obj)) report
      else report)"

definition check_uv :: "object \<Rightarrow> mesh \<Rightarrow> report \<Rightarrow> report" where
  "check_uv obj mesh report =
     (if uv_layers mesh = [] then add_issue (missing_uv_issue (obj_name obj)) report
      else if length (uv_layers mesh) > 2
      then add_warning (uv_count_warning (obj_name obj) (int (length (uv_layers mesh)))) report
      else report)"

definition check_ngons :: "object \<Rightarrow> mesh \<Rightarrow> report \<Rightarrow> report" where
  "check_ngons obj mesh report =
     (let ngons = int (length (filter (\<lambda>p. length (poly_vertices p) > 4) (polygons mesh)))
      in if ngons > 0 then add_warning (ngons_warning (obj_name obj) ngons) report
         else report)"

definition check_loose :: "object \<Rightarrow> mesh \<Rightarrow> report \<Rightarrow> report" where
  "check_loose obj mesh report =
     (let vertex_used = set (concat (map edge_vertices (edges mesh)));
          loose = int (length (vertices mesh)) - int (card vertex_used)
      in if loose > 0 then add_warning (loose_warning (obj_name obj) loose) report
         else report)"

definition check_naming :: "object \<Rightarrow> report \<Rightarrow> report" where
  "check_naming obj report =
     (if \<not> (prefix ''SM_'' (obj_name obj) \<or> prefix ''SK_'' (obj_name obj) \<or>
             prefix ''S_'' (obj_name obj))
      then add_warning (naming_warning (obj_name obj)) report
      else report)"

definition validate_mesh :: "float_format \<Rightarrow> object \<Rightarrow> mesh \<Rightarrow> report \<Rightarrow> report" where
  "validate_mesh fmt obj mesh report =
     (let info = \<lparr>info_name = obj_name obj,
                  info_vertices = int (length (vertices mesh)),
                  info_faces = int (length (polygons mesh)),
                  info_edges = int (length (edges mesh))\<rparr>;
          st = stats report;
          report = report\<lparr>stats := st\<lparr>mesh_objects := mesh_objects st + 1,
                                        total_vertices := total_vertices st + int (length (vertices mesh)),
                                        total_faces := total_faces st + int (length (polygons mesh))\<rparr>,
                          objects := objects report @ [info]\<rparr>;
          report = check_scale fmt (obj_name obj)
                     (enumerate 0 (zip (components (scale obj)) (components EXPECTED_SCALE))) report;
          report = check_rotation obj report;
          report = check_uv obj mesh report;
          report = check_ngons obj mesh report;
          report = check_loose obj mesh report
      in check_naming obj report)"

subsection \<open>\<open>_validate_armature\<close>\<close>

definition validate_armature :: "object \<Rightarrow> armature \<Rightarrow> report \<Rightarrow> report" where
  "validate_armature obj armature report =
     (let bone_count = int (length (bones armature));
          st = stats report;
          report = report\<lparr>stats := st\<lparr>armatures := armatures st + 1\<rparr>\<rparr>;
          report = (if bone_count > MAX_BONES
                    then add_issue (bone_limit_issue (obj_name obj) bone_count) report
                    else report);
          report = (if bone_count = 0 then add_issue (no_bones_issue (obj_name obj)) report
                    else report);
          root_bones = filter (\<lambda>b. bone_parent b = None) (bones armature)
      in if length root_bones > 1
         then add_warning (root_bones_warning (obj_name obj) (int (length root_bones))) report
         else report)"

subsection \<open>\<open>validate_file\<close>\<close>

text \<open>The body of the loop over \<open>bpy.data.objects\<close>, lines 56 to 59, and the loop.\<close>

definition validate_object :: "float_format \<Rightarrow> object \<Rightarrow> report \<Rightarrow> report" where
  "validate_object fmt obj report =
     (case obj_data obj of
        MESH mesh \<Rightarrow> validate_mesh fmt obj mesh report
      | ARMATURE armature \<Rightarrow> validate_armature obj armature report
      | OTHER t \<Rightarrow> report)"

fun validate_objects :: "float_format \<Rightarrow> object list \<Rightarrow> report \<Rightarrow> report" where
  "validate_objects fmt [] report = report"
| "validate_objects fmt (obj # objs) report =
     validate_objects fmt objs (validate_object fmt obj report)"

fun validate_materials :: "material list \<Rightarrow> report \<Rightarrow> report" where
  "validate_materials [] report = report"
| "validate_materials (mat # mats) report =
     validate_materials mats
       (let st = stats report;
            report = report\<lparr>stats := st\<lparr>materials := materials st + 1\<rparr>\<rparr>
        in if \<not> use_nodes mat then add_warning (material_warning (mat_name mat)) report
           else report)"

text \<open>
  The body of \<open>validate_file\<close> after the two \<open>bpy.ops.wm\<close> calls have loaded the file: the
  fresh report, the walk over \<open>bpy.data.objects\<close>, the walk over \<open>bpy.data.materials\<close>, the
  check of the vertex total, and last the \<open>valid\<close> key.
\<close>

definition new_report :: "path \<Rightarrow> report" where
  "new_report filepath =
     \<lparr>rep_file = name filepath, rep_path = str_path filepath, objects = [], issues = [],
      warnings = [],
      stats = \<lparr>total_vertices = 0, total_faces = 0, mesh_objects = 0, armatures = 0,
               materials = 0\<rparr>\<rparr>"

definition validate_scene :: "float_format \<Rightarrow> path \<Rightarrow> bpy_data \<Rightarrow> validation_report" where
  "validate_scene fmt filepath d =
     (let report = new_report filepath;
          report = validate_objects fmt (data_objects d) report;
          report = validate_materials (data_materials d) report;
          report = (if total_vertices (stats report) > MAX_VERTICES_LOD0
                    then add_issue (total_vertices_issue (total_vertices (stats report))) report
                    else report)
      in report.extend report (validation_report.fields (length (issues report) = 0)))"

section \<open>Blender and the file system as an explicit world\<close>

text \<open>
  The scripts work on one global resource: the scene Blender holds, and the file system
  around it. The world is a value of an arbitrary type \<open>'w\<close>; a \<open>system\<close> gives the
  operations the scripts call on it. An operation that can raise returns the exception (or
  \<open>None\<close>) together with the world it leaves behind. \<open>bpy_data_of\<close> reads \<open>bpy.data\<close>.
  \<open>rglob\<close> is \<open>list(Path.rglob(pattern))\<close>, \<open>path_exists\<close> is \<open>Path.exists()\<close> and \<open>st_mtime\<close> is
  \<open>Path.stat().st_mtime\<close>: the three only read the world, and each can raise (a missing
  file, a directory that may not be searched), so they return the exception or the value.
  An exception is an instance of \<open>Exception\<close>, the class that \<open>except Exception\<close> catches.
  \<open>str_lower\<close> is \<open>str.lower()\<close>.
  What the scripts print to the console is not part of the model. The keyword arguments of
  \<open>bpy.ops.export_scene.fbx\<close> are the constants of \<open>UE5_EXPORT_SETTINGS\<close>; only the
  \<open>filepath\<close> argument varies and is kept.
\<close>

datatype py_exception = PyException string

record results =
  exported :: int
  failed :: int
  skipped :: int
  files :: "string list"

record export_report = results +
  timestamp :: string
  total_files :: int

record 'w system =
  read_homefile :: "'w \<Rightarrow> py_exception option \<times> 'w"
  open_mainfile :: "string \<Rightarrow> 'w \<Rightarrow> py_exception option \<times> 'w"
  export_scene_fbx :: "string \<Rightarrow> 'w \<Rightarrow> py_exception option \<times> 'w"
  mkdir :: "path \<Rightarrow> 'w \<Rightarrow> py_exception option \<times> 'w"
  json_dump :: "path \<Rightarrow> export_report \<Rightarrow> 'w \<Rightarrow> py_exception option \<times> 'w"
  bpy_data_of :: "'w \<Rightarrow> bpy_data"
  rglob :: "path \<Rightarrow> string \<Rightarrow> 'w \<Rightarrow> py_exception + path list"
  path_exists :: "path \<Rightarrow> 'w \<Rightarrow> py_exception + bool"
  st_mtime :: "path \<Rightarrow> 'w \<Rightarrow> py_exception + rat"
  now_isoformat :: "'w \<Rightarrow> string"
  str_lower :: "string \<Rightarrow> string"

subsection \<open>\<open>ModelValidator.validate_file\<close>\<close>

record validator =
  validator_results :: "validation_report list"
  total_issues :: int

definition validate_file ::
  "'w system \<Rightarrow> float_format \<Rightarrow> validator \<Rightarrow> path \<Rightarrow> 'w \<Rightarrow>
     (py_exception + validation_report \<times> validator) \<times> 'w" where
  "validate_file sys fmt self filepath w =
     (case read_homefile sys w of
        (Some e, w1) \<Rightarrow> (Inl e, w1)
      | (None, w1) \<Rightarrow>
          (case open_mainfile sys (str_path filepath) w1 of
             (Some e, w2) \<Rightarrow> (Inl e, w2)
           | (None, w2) \<Rightarrow>
               (let report = validate_scene fmt filepath (bpy_data_of sys w2);
                    self = self\<lparr>total_issues := total_issues self + int (length (issues report)),
                                validator_results := validator_results self @ [report]\<rparr>
                in (Inr (report, self), w2))))"

section \<open>batch\_export.py: validation, export and the batch loop\<close>

subsection \<open>\<open>validate_model\<close>\<close>

record model_stats =
  stat_vertices :: int
  stat_faces :: int
  stat_objects :: int
  stat_armatures :: int

record model_report =
  mr_file :: string
  mr_stats :: model_stats
  mr_issues :: "string list"
  mr_valid :: bool

definition ngons_found_issue :: "string \<Rightarrow> int \<Rightarrow> string" where
  "ngons_found_issue nm n = nm @ '': '' @ str_int n @ '' ngons found (should be tris/quads)''"

definition no_uv_issue :: "string \<Rightarrow> string" where
  "no_uv_issue nm = nm @ '': No UV map''"

definition non_uniform_scale_issue :: "float_format \<Rightarrow> string \<Rightarrow> vector \<Rightarrow> string" where
  "non_uniform_scale_issue fmt nm v =
     (case v of (x, y, z) \<Rightarrow>
        nm @ '': Non-uniform scale ('' @ float_repr fmt x @ '', '' @ float_repr fmt y @
        '', '' @ float_repr fmt z @ '')'')"

fun validate_model_objects ::
  "float_format \<Rightarrow> object list \<Rightarrow> model_stats \<times> string list \<Rightarrow> model_stats \<times> string list" where
  "validate_model_objects fmt [] (st, issue_list) = (st, issue_list)"
| "validate_model_objects fmt (obj # objs) (st, issue_list) =
     validate_model_objects fmt objs
       (case obj_data obj of
          MESH mesh \<Rightarrow>
            (let st = st\<lparr>stat_objects := stat_objects st + 1\<rparr>;
                 st = st\<lparr>stat_vertices := stat_vertices st + int (length (vertices mesh))\<rparr>;
                 st = st\<lparr>stat_faces := stat_faces st + int (length (polygons mesh))\<rparr>;
                 ngons = filter (\<lambda>p. length (poly_vertices p) > 4) (polygons mesh);
                 issue_list = (if ngons \<noteq> []
                           then issue_list @ [ngons_found_issue (obj_name obj) (int (length ngons))]
                           else issue_list);
                 issue_list = (if uv_layers mesh = [] then issue_list @ [no_uv_issue (obj_name obj)]
                           else issue_list);
                 issue_list = (if list_ex (\<lambda>s. \<bar>s - 1.0\<bar> > 0.001) (components (scale obj))
                           then issue_list @ [non_uniform_scale_issue fmt (obj_name obj) (scale obj)]
                           else issue_list)
             in (st, issue_list))
        | ARMATURE armature \<Rightarrow> (st\<lparr>stat_armatures := stat_armatures st + 1\<rparr>, issue_list)
        | OTHER t \<Rightarrow> (st, issue_list))"

definition validate_model :: "float_format \<Rightarrow> bpy_data \<Rightarrow> path \<Rightarrow> model_report" where
  "validate_model fmt d filepath =
     (case validate_model_objects fmt (data_objects d)
             (\<lparr>stat_vertices = 0, stat_faces = 0, stat_objects = 0, stat_armatures = 0\<rparr>, [])
      of (st, issue_list) \<Rightarrow>
        \<lparr>mr_file = str_path filepath, mr_stats = st, mr_issues = issue_list,
         mr_valid = (length issue_list = 0)\<rparr>)"

subsection \<open>Calls and effects of a run\<close>

text \<open>
  A run carries the world and, as a ghost value, the list of the calls made so far to the
  functions that \<open>batch_export.py\<close> defines, one constructor per function. Each function
  below records its own call on entry; \<open>get_category\<close>, being a pure function, is recorded
  by its caller.
\<close>

datatype call =
    Ensure_dir path
  | Get_category path
  | Clean_scene
  | Validate_model path
  | Export_blend_to_fbx path path

record 'w run =
  world :: 'w
  calls :: "call list"

definition called :: "call \<Rightarrow> 'w run \<Rightarrow> 'w run" where
  "called c st = st\<lparr>calls := calls st @ [c]\<rparr>"

definition effect :: "('w \<Rightarrow> py_exception option \<times> 'w) \<Rightarrow> 'w run \<Rightarrow> py_exception option \<times> 'w run" where
  "effect f st = (case f (world st) of (e, w) \<Rightarrow> (e, st\<lparr>world := w\<rparr>))"

definition ensure_dir :: "'w system \<Rightarrow> path \<Rightarrow> 'w run \<Rightarrow> py_exception option \<times> 'w run" where
  "ensure_dir sys p st = effect (mkdir sys p) (called (Ensure_dir p) st)"

definition clean_scene :: "'w system \<Rightarrow> 'w run \<Rightarrow> py_exception option \<times> 'w run" where
  "clean_scene sys st = effect (read_homefile sys) (called Clean_scene st)"

subsection \<open>\<open>export_blend_to_fbx\<close>\<close>

text \<open>
  The body of the \<open>try\<close> runs until the first call that raises; \<open>except Exception\<close> then
  returns \<open>False\<close>. When no call raises the function returns \<open>True\<close>.
\<close>

definition export_blend_to_fbx :: "'w system \<Rightarrow> path \<Rightarrow> path \<Rightarrow> 'w run \<Rightarrow> bool \<times> 'w run" where
  "export_blend_to_fbx sys blend_path export_path st =
     (case clean_scene sys (called (Export_blend_to_fbx blend_path export_path) st) of
        (Some e, st1) \<Rightarrow> (False, st1)
      | (None, st1) \<Rightarrow>
          (case effect (open_mainfile sys (str_path blend_path)) st1 of
             (Some e, st2) \<Rightarrow> (False, st2)
           | (None, st2) \<Rightarrow>
               (case ensure_dir sys (parent export_path) st2 of
                  (Some e, st3) \<Rightarrow> (False, st3)
                | (None, st3) \<Rightarrow>
                    (case effect (export_scene_fbx sys (str_path export_path)) st3 of
                       (Some e, st4) \<Rightarrow> (False, st4)
                     | (None, st4) \<Rightarrow> (True, st4)))))"

subsection \<open>\<open>main\<close>\<close>

text \<open>
  The module constants are computed from the directory of the script, \<open>SCRIPT_DIR\<close>,
  which every function below takes as its parameter.
\<close>

definition PROJECT_ROOT :: "path \<Rightarrow> path" where
  "PROJECT_ROOT SCRIPT_DIR = parent (parent SCRIPT_DIR)"

definition MODELS_DIR :: "path \<Rightarrow> path" where
  "MODELS_DIR SCRIPT_DIR = joinpath (parent SCRIPT_DIR) ''models''"

definition EXPORT_DIR :: "path \<Rightarrow> path" where
  "EXPORT_DIR SCRIPT_DIR =
     joinpath (joinpath (joinpath (joinpath (PROJECT_ROOT SCRIPT_DIR) ''ue5-client'')
       ''Content'') ''Models'') ''Imported''"

text \<open>Lines 198 to 200: the output path of a source file.\<close>

definition export_path_of :: "'w system \<Rightarrow> path \<Rightarrow> path \<Rightarrow> path" where
  "export_path_of sys SCRIPT_DIR blend_path =
     (let category = get_category (str_lower sys) blend_path;
          fbx_name = stem blend_path @ ''.fbx''
      in joinpath (joinpath (EXPORT_DIR SCRIPT_DIR) category) fbx_name)"

text \<open>
  Lines 203 to 206, under the comment \<open>Skip if FBX is newer than .blend\<close>: the two nested
  conditions under which the loop skips the file. The three calls are outside every \<open>try\<close>:
  an exception of \<open>exists()\<close> or of either \<open>stat()\<close> leaves the loop and \<open>main\<close>.
\<close>

definition fbx_is_newer :: "'w system \<Rightarrow> path \<Rightarrow> path \<Rightarrow> 'w \<Rightarrow> py_exception + bool" where
  "fbx_is_newer sys blend_path export_path w =
     (case path_exists sys export_path w of
        Inl e \<Rightarrow> Inl e
      | Inr found \<Rightarrow>
          (if found
           then (case st_mtime sys blend_path w of
                   Inl e \<Rightarrow> Inl e
                 | Inr blend_mtime \<Rightarrow>
                     (case st_mtime sys export_path w of
                        Inl e \<Rightarrow> Inl e
                      | Inr fbx_mtime \<Rightarrow> Inr (fbx_mtime > blend_mtime)))
           else Inr False))"

fun main_loop ::
  "'w system \<Rightarrow> path \<Rightarrow> path list \<Rightarrow> results \<Rightarrow> 'w run \<Rightarrow> (py_exception + results) \<times> 'w run" where
  "main_loop sys SCRIPT_DIR [] results st = (Inr results, st)"
| "main_loop sys SCRIPT_DIR (blend_path # rest) results st =
     (let st0 = called (Get_category blend_path) st;
          export_path = export_path_of sys SCRIPT_DIR blend_path
      in case fbx_is_newer sys blend_path export_path (world st0) of
           Inl e \<Rightarrow> (Inl e, st0)
         | Inr newer \<Rightarrow>
             (if newer
              then main_loop sys SCRIPT_DIR rest (results\<lparr>skipped := skipped results + 1\<rparr>) st0
              else if fst (export_blend_to_fbx sys blend_path export_path st0)
              then main_loop sys SCRIPT_DIR rest
                     (results\<lparr>exported := exported results + 1,
                              files := files results @ [str_path export_path]\<rparr>)
                     (snd (export_blend_to_fbx sys blend_path export_path st0))
              else main_loop sys SCRIPT_DIR rest (results\<lparr>failed := failed results + 1\<rparr>)
                     (snd (export_blend_to_fbx sys blend_path export_path st0))))"

text \<open>
  \<open>main\<close> returns \<open>None\<close> in Python. The model returns what the run leaves behind: the
  exception that aborted it, or the report it wrote to \<open>export_report.json\<close>, or no report
  when no source file was found.
\<close>

definition main :: "'w system \<Rightarrow> path \<Rightarrow> 'w run \<Rightarrow> (py_exception + export_report option) \<times> 'w run" where
  "main sys SCRIPT_DIR st =
     (case ensure_dir sys (EXPORT_DIR SCRIPT_DIR) st of
        (Some e, st1) \<Rightarrow> (Inl e, st1)
      | (None, st1) \<Rightarrow>
          (case rglob sys (MODELS_DIR SCRIPT_DIR) ''*.blend'' (world st1) of
             Inl e \<Rightarrow> (Inl e, st1)
           | Inr blend_files \<Rightarrow>
               if blend_files = [] then (Inr None, st1)
               else
                 (case main_loop sys SCRIPT_DIR blend_files
                         \<lparr>exported = 0, failed = 0, skipped = 0, files = []\<rparr> st1
                  of (Inl e, st2) \<Rightarrow> (Inl e, st2)
                   | (Inr results, st2) \<Rightarrow>
                    (let report_path = joinpath (EXPORT_DIR SCRIPT_DIR) ''export_report.json'';
                         report = \<lparr>exported = exported results, failed = failed results,
                                   skipped = skipped results, files = files results,
                                   timestamp = now_isoformat sys (world st2),
                                   total_files = int (length blend_files)\<rparr>
                     in case effect (json_dump sys report_path report) st2 of
                          (Some e, st3) \<Rightarrow> (Inl e, st3)
                        | (None, st3) \<Rightarrow> (Inr (Some report), st3)))))"

section \<open>Notions used to state the properties\<close>

text \<open>
  What a call appends to the issue list and to the warning list of the report it is given:
  the lists are only ever appended to, so the new entries are those past the old length.
\<close>

definition new_issues :: "report \<Rightarrow> report \<Rightarrow> string list" where
  "new_issues before after = drop (length (issues before)) (issues after)"

definition new_warnings :: "report \<Rightarrow> report \<Rightarrow> string list" where
  "new_warnings before after = drop (length (warnings before)) (warnings after)"

text \<open>
  What the validator emits for one object: the issues and the warnings that the body of
  the loop over the objects appends for it. They do not depend on the report they are
  appended to, so they are read off a fresh one.
\<close>

definition object_issues :: "float_format \<Rightarrow> object \<Rightarrow> string list" where
  "object_issues fmt obj = new_issues (new_report []) (validate_object fmt obj (new_report []))"

definition object_warnings :: "float_format \<Rightarrow> object \<Rightarrow> string list" where
  "object_warnings fmt obj =
     new_warnings (new_report []) (validate_object fmt obj (new_report []))"

text \<open>
  The scale issues of an object as the specification words them: for each of the axes 0, 1
  and 2 in turn, the issue of that axis if its scale is off 1.0 by more than 0.001.
\<close>

definition scale_issues :: "float_format \<Rightarrow> object \<Rightarrow> string list" where
  "scale_issues fmt obj =
     concat (map (\<lambda>i. if \<bar>components (scale obj) ! i - 1.0\<bar> > 0.001
                        then [scale_issue fmt (obj_name obj) i (components (scale obj) ! i) 1.0]
                        else []) [0, 1, 2])"






text \<open>A scene without mesh objects and without armature objects.\<close>

definition is_other :: "object \<Rightarrow> bool" where
  "is_other obj = (case obj_data obj of MESH m \<Rightarrow> False | ARMATURE a \<Rightarrow> False | OTHER t \<Rightarrow> True)"

definition no_mesh_no_armature :: "bpy_data \<Rightarrow> bool" where
  "no_mesh_no_armature d = list_all is_other (data_objects d)"

section \<open>Example values\<close>

text \<open>
  \<open>str.lower()\<close> for the examples: on ASCII letters the bytes \<open>A\<close> .. \<open>Z\<close> (65 .. 90) move to
  \<open>a\<close> .. \<open>z\<close>; the capital I with a dot above, U+0130 (bytes C4 B0), becomes \<open>i\<close> followed
  by the combining dot U+0307 (bytes 69 CC 87), as Python has it; every other byte stays.
\<close>

definition char_lower :: "char \<Rightarrow> char" where
  "char_lower c =
     (let n = (of_char c :: nat) in if 65 \<le> n \<and> n \<le> 90 then char_of (n + 32) else c)"

fun example_lower :: "string \<Rightarrow> string" where
  "example_lower [] = []"
| "example_lower [c] = [char_lower c]"
| "example_lower (c # d # s) =
     (if c = CHR 0xC4 \<and> d = CHR 0xB0 then [CHR 0x69, CHR 0xCC, CHR 0x87] @ example_lower s
      else char_lower c # example_lower (d # s))"

text \<open>
  A float format for the examples. \<open>format_3f_exact\<close> is \<open>{x:.3f}\<close> on the exact value:
  three decimals, a tie rounded to the even neighbour. \<open>repr_decimal\<close> prints the decimal
  expansion with at least one fractional digit and cuts it after 17; it is Python's \<open>repr\<close>
  only on values with a short decimal expansion, such as those of the examples.
\<close>

definition round_half_even :: "rat \<Rightarrow> int" where
  "round_half_even x =
     (let f = \<lfloor>x\<rfloor>; r = x - of_int f
      in if r < 1 / 2 then f else if r > 1 / 2 then f + 1 else if even f then f else f + 1)"

definition zfill :: "nat \<Rightarrow> string \<Rightarrow> string" where
  "zfill n s = replicate (n - length s) (CHR ''0'') @ s"

definition format_3f_exact :: "rat \<Rightarrow> string" where
  "format_3f_exact x =
     (let n = round_half_even (\<bar>x\<bar> * 1000)
      in (if x < 0 then ''-'' else []) @ str_int (n div 1000) @ ''.'' @
         zfill 3 (str_int (n mod 1000)))"

fun frac_digits :: "nat \<Rightarrow> rat \<Rightarrow> string" where
  "frac_digits 0 x = []"
| "frac_digits (Suc k) x =
     (let d = \<lfloor>x * 10\<rfloor>; r = x * 10 - of_int d
      in digit_char (nat d) # (if r = 0 then [] else frac_digits k r))"

definition repr_decimal :: "rat \<Rightarrow> string" where
  "repr_decimal x =
     (if x < 0 then ''-'' else []) @ str_int \<lfloor>\<bar>x\<bar>\<rfloor> @ ''.'' @
     frac_digits 17 (\<bar>x\<bar> - of_int \<lfloor>\<bar>x\<bar>\<rfloor>)"

definition exact_format :: float_format where
  "exact_format = \<lparr>format_3f = format_3f_exact, float_repr = repr_decimal\<rparr>"

text \<open>Meshes, armatures and scenes for the examples.\<close>

definition quad_mesh :: "string list \<Rightarrow> mesh" where
  "quad_mesh uvs =
     \<lparr>vertices = [(0, 0, 0), (1, 0, 0), (1, 1, 0), (0, 1, 0)],
      polygons = [\<lparr>poly_vertices = [0, 1, 2, 3]\<rparr>],
      edges = [\<lparr>edge_vertices = [0, 1]\<rparr>, \<lparr>edge_vertices = [1, 2]\<rparr>,
               \<lparr>edge_vertices = [2, 3]\<rparr>, \<lparr>edge_vertices = [3, 0]\<rparr>],
      uv_layers = uvs, has_custom_normals = False\<rparr>"

definition mesh_object :: "string \<Rightarrow> vector \<Rightarrow> string list \<Rightarrow> object" where
  "mesh_object nm sc uvs =
     \<lparr>obj_name = nm, obj_data = MESH (quad_mesh uvs), scale = sc, rotation_euler = (0, 0, 0)\<rparr>"

definition chain_armature :: "nat \<Rightarrow> armature" where
  "chain_armature n =
     \<lparr>bones = map (\<lambda>i. \<lparr>bone_name = ''bone'' @ str_nat i,
                           bone_parent = (if i = 0 then None else Some (''bone'' @ str_nat (i - 1)))\<rparr>)
               [0..<n]\<rparr>"

definition armature_object :: "string \<Rightarrow> nat \<Rightarrow> object" where
  "armature_object nm n =
     \<lparr>obj_name = nm, obj_data = ARMATURE (chain_armature n), scale = (1, 1, 1),
      rotation_euler = (0, 0, 0)\<rparr>"

definition camera_object :: object where
  "camera_object =
     \<lparr>obj_name = ''Camera'', obj_data = OTHER ''CAMERA'', scale = (1, 1, 1),
      rotation_euler = (0, 0, 0)\<rparr>"

text \<open>
  A system for the examples. The world is the list of the operations performed so far. The
  fixture says which source files exist, the modification time of every file on disk,
  which files Blender cannot read, which output paths the exporter rejects, and the scene
  that \<open>bpy.data\<close> shows.
\<close>

record fixture =
  fx_sources :: "path list"
  fx_mtimes :: "(path \<times> rat) list"
  fx_unreadable :: "string list"
  fx_rejected :: "string list"
  fx_scene :: bpy_data

definition fixture_system :: "fixture \<Rightarrow> (string list) system" where
  "fixture_system fx =
     \<lparr>read_homefile = (\<lambda>w. (None, w @ [''read_homefile''])),
      open_mainfile = (\<lambda>p w.
        (if p \<in> set (fx_unreadable fx) then Some (PyException ''cannot read file'') else None,
         w @ [''open_mainfile '' @ p])),
      export_scene_fbx = (\<lambda>p w.
        (if p \<in> set (fx_rejected fx) then Some (PyException ''export failed'') else None,
         w @ [''export_scene.fbx '' @ p])),
      mkdir = (\<lambda>p w. (None, w @ [''mkdir '' @ str_path p])),
      json_dump = (\<lambda>p r w. (None, w @ [''json.dump '' @ str_path p])),
      bpy_data_of = (\<lambda>w. fx_scene fx),
      rglob = (\<lambda>d pat w. Inr (fx_sources fx)),
      path_exists = (\<lambda>p w. Inr (map_of (fx_mtimes fx) p \<noteq> None)),
      st_mtime = (\<lambda>p w. case map_of (fx_mtimes fx) p of
                           Some t \<Rightarrow> Inr t
                         | None \<Rightarrow> Inl (PyException ''FileNotFoundError'')),
      now_isoformat = (\<lambda>w. ''2024-01-01T00:00:00''),
      str_lower = example_lower\<rparr>"

definition empty_scene :: bpy_data where
  "empty_scene = \<lparr>data_objects = [], data_materials = []\<rparr>"

definition warnings_only_scene :: bpy_data where
  "warnings_only_scene =
     \<lparr>data_objects = [mesh_object ''Crate'' (1, 1, 1) [''UVMap'']], data_materials = []\<rparr>"

definition orphan_material_scene :: bpy_data where
  "orphan_material_scene =
     \<lparr>data_objects = [camera_object],
      data_materials = [\<lparr>mat_name = ''Steel'', use_nodes = False\<rparr>]\<rparr>"

definition no_uv_scene :: bpy_data where
  "no_uv_scene =
     \<lparr>data_objects = [mesh_object ''SM_Crate'' (1, 1, 1) []], data_materials = []\<rparr>"

definition scaled_scene :: bpy_data where
  "scaled_scene =
     \<lparr>data_objects = [camera_object, mesh_object ''SM_Crate'' (1.0009, 1.0011, 1.0) [''UVMap'']],
      data_materials = []\<rparr>"

definition rig_scene :: "nat \<Rightarrow> bpy_data" where
  "rig_scene n = \<lparr>data_objects = [armature_object ''Rig'' n], data_materials = []\<rparr>"

definition many_uv_scene :: bpy_data where
  "many_uv_scene =
     \<lparr>data_objects = [mesh_object ''SM_Crate'' (1, 1, 1) [''UVMap'', ''Lightmap'', ''Detail'']],
      data_materials = []\<rparr>"

definition scene_fixture :: "bpy_data \<Rightarrow> fixture" where
  "scene_fixture d =
     \<lparr>fx_sources = [], fx_mtimes = [], fx_unreadable = [], fx_rejected = [], fx_scene = d\<rparr>"

definition new_validator :: validator where
  "new_validator = \<lparr>validator_results = [], total_issues = 0\<rparr>"

text \<open>
  Batch runs for the examples. The script lies in \<open>/proj/blender/scripts\<close>, so the models
  are searched under \<open>/proj/blender/models\<close> and exported below
  \<open>/proj/ue5-client/Content/Models/Imported\<close>.
\<close>

definition script_dir :: path where
  "script_dir = [''proj'', ''blender'', ''scripts'']"

definition export_dir :: path where
  "export_dir = [''proj'', ''ue5-client'', ''Content'', ''Models'', ''Imported'']"

definition sword_blend :: path where
  "sword_blend = [''proj'', ''blender'', ''models'', ''weapons'', ''sword_01.blend'']"

definition hero_blend :: path where
  "hero_blend = [''proj'', ''blender'', ''models'', ''characters'', ''hero.blend'']"

definition blob_blend :: path where
  "blob_blend = [''proj'', ''blender'', ''models'', ''blob.blend'']"

definition sword_fbx :: path where
  "sword_fbx = export_dir @ [''Weapons'', ''sword_01.fbx'']"

definition hero_fbx :: path where
  "hero_fbx = export_dir @ [''Characters'', ''hero.fbx'']"

definition blob_fbx :: path where
  "blob_fbx = export_dir @ [''Misc'', ''blob.fbx'']"

text \<open>
  Three sources: the sword has a newer output, the hero cannot be read, the blob has no
  output yet.
\<close>

definition mixed_fixture :: fixture where
  "mixed_fixture =
     \<lparr>fx_sources = [sword_blend, hero_blend, blob_blend],
      fx_mtimes = [(sword_blend, 100), (hero_blend, 100), (blob_blend, 100), (sword_fbx, 200)],
      fx_unreadable = [str_path hero_blend],
      fx_rejected = [],
      fx_scene = empty_scene\<rparr>"

text \<open>One source whose output exists and has the same modification time.\<close>

definition tie_fixture :: fixture where
  "tie_fixture =
     \<lparr>fx_sources = [sword_blend],
      fx_mtimes = [(sword_blend, 100), (sword_fbx, 100)],
      fx_unreadable = [],
      fx_rejected = [],
      fx_scene = empty_scene\<rparr>"


text \<open>
  One source that is listed but cannot be inspected (a dangling symbolic link), while its
  output exists: \<open>stat()\<close> raises.
\<close>

definition dangling_fixture :: fixture where
  "dangling_fixture =
     \<lparr>fx_sources = [sword_blend],
      fx_mtimes = [(sword_fbx, 200)],
      fx_unreadable = [],
      fx_rejected = [],
      fx_scene = empty_scene\<rparr>"

definition start :: "string list run" where
  "start = \<lparr>world = [], calls = []\<rparr>"







section \<open>What the checks of the validator append\<close>

lemma add_issue_simps:
  "issues (add_issue m r) = issues r @ [m]"
  "warnings (add_issue m r) = warnings r"
  "stats (add_issue m r) = stats r"
  "objects (add_issue m r) = objects r"
  by (simp_all add: add_issue_def)

lemma add_warning_simps:
  "issues (add_warning m r) = issues r"
  "warnings (add_warning m r) = warnings r @ [m]"
  "stats (add_warning m r) = stats r"
  "objects (add_warning m r) = objects r"
  by (simp_all add: add_warning_def)

lemma check_scale_issues:
  "issues (check_scale fmt nm xs r) =
     issues r @
     concat (map (\<lambda>(i, s, expected).
        if \<bar>s - expected\<bar> > SCALE_TOLERANCE then [scale_issue fmt nm i s expected] else []) xs)"
  by (induction xs arbitrary: r) (auto simp: add_issue_simps)

lemma check_scale_frame:
  "warnings (check_scale fmt nm xs r) = warnings r"
  "stats (check_scale fmt nm xs r) = stats r"
  "objects (check_scale fmt nm xs r) = objects r"
  by (induction xs arbitrary: r) (auto simp: add_issue_simps)

lemma check_rotation_frame:
  "issues (check_rotation obj r) = issues r"
  "stats (check_rotation obj r) = stats r"
  by (simp_all add: check_rotation_def add_warning_simps)

lemma check_ngons_frame:
  "issues (check_ngons obj m r) = issues r"
  "stats (check_ngons obj m r) = stats r"
  by (simp_all add: check_ngons_def Let_def add_warning_simps)

lemma check_loose_frame:
  "issues (check_loose obj m r) = issues r"
  "stats (check_loose obj m r) = stats r"
  by (simp_all add: check_loose_def Let_def add_warning_simps)

lemma check_naming_frame:
  "issues (check_naming obj r) = issues r"
  "stats (check_naming obj r) = stats r"
  by (simp_all add: check_naming_def add_warning_simps)

lemma check_uv_issues:
  "issues (check_uv obj m r) =
     issues r @ (if uv_layers m = [] then [missing_uv_issue (obj_name obj)] else [])"
  by (simp add: check_uv_def add_issue_simps add_warning_simps)

lemma check_uv_stats: "stats (check_uv obj m r) = stats r"
  by (simp add: check_uv_def add_issue_simps add_warning_simps)

lemma scale_triples:
  "enumerate 0 (zip (components v) (components EXPECTED_SCALE)) =
     [(0, components v ! 0, 1), (1, components v ! 1, 1), (2, components v ! 2, 1)]"
  by (cases v) (simp add: components_def EXPECTED_SCALE_def)

lemma validate_mesh_issues:
  "issues (validate_mesh fmt obj m r) =
     issues r @
     concat (map (\<lambda>i. if \<bar>components (scale obj) ! i - 1.0\<bar> > 0.001
                        then [scale_issue fmt (obj_name obj) i (components (scale obj) ! i) 1.0]
                        else []) [0, 1, 2]) @
     (if uv_layers m = [] then [missing_uv_issue (obj_name obj)] else [])"
  by (simp add: validate_mesh_def Let_def check_naming_frame check_loose_frame check_ngons_frame
      check_uv_issues check_rotation_frame check_scale_issues scale_triples SCALE_TOLERANCE_def
      del: check_scale.simps)

lemma new_issues_append: "issues r' = issues r @ xs \<Longrightarrow> new_issues r r' = xs"
  by (simp add: new_issues_def)

lemma new_warnings_append: "warnings r' = warnings r @ xs \<Longrightarrow> new_warnings r r' = xs"
  by (simp add: new_warnings_def)

subsection \<open>The messages differ\<close>

lemma axis_letter_inj: "i < 3 \<Longrightarrow> j < 3 \<Longrightarrow> ''XYZ'' ! i = ''XYZ'' ! j \<Longrightarrow> i = j"
  by (auto simp: less_Suc_eq numeral_3_eq_3)

lemma scale_issue_axis:
  "scale_issue fmt nm i s e = scale_issue fmt nm j s' e' \<Longrightarrow> ''XYZ'' ! i = ''XYZ'' ! j"
  by (simp add: scale_issue_def quoted_def)

lemma scale_issue_not_missing_uv: "scale_issue fmt nm i s e \<noteq> missing_uv_issue nm"
  by (simp add: scale_issue_def missing_uv_issue_def quoted_def)

lemma digit_char_in: "digit_char d \<in> set ''0123456789''"
  unfolding digit_char_def by (rule nth_mem) simp

lemma str_nat_hd: "\<exists>c cs. str_nat n = c # cs \<and> c \<in> set ''0123456789''"
proof (induction n rule: str_nat.induct)
  case (1 n)
  show ?case
  proof (cases "n < 10")
    case True
    then show ?thesis using digit_char_in [of n] by (subst str_nat.simps) simp
  next
    case False
    with 1 obtain c cs where "str_nat (n div 10) = c # cs" "c \<in> set ''0123456789''" by blast
    with False show ?thesis by (subst str_nat.simps) simp
  qed
qed

lemma str_int_hd: "\<exists>c cs. str_int i = c # cs \<and> c \<in> set ''-0123456789''"
proof (cases "i < 0")
  case True
  then show ?thesis by (simp add: str_int_def)
next
  case False
  obtain c cs where "str_nat (nat i) = c # cs" "c \<in> set ''0123456789''"
    using str_nat_hd by blast
  with False show ?thesis by (auto simp: str_int_def)
qed

lemma bone_limit_not_no_bones: "bone_limit_issue nm n \<noteq> no_bones_issue nm"
proof -
  obtain c cs where "str_int n = c # cs" "c \<in> set ''-0123456789''"
    using str_int_hd by blast
  then show ?thesis by (auto simp: bone_limit_issue_def no_bones_issue_def quoted_def)
qed

lemma uv_count_not_scale: "uv_count_warning nm n \<noteq> scale_issue fmt nm i s e"
proof -
  obtain c cs where "str_int n = c # cs" "c \<in> set ''-0123456789''"
    using str_int_hd by blast
  then show ?thesis by (auto simp: uv_count_warning_def scale_issue_def quoted_def)
qed

lemma uv_count_not_missing: "uv_count_warning nm n \<noteq> missing_uv_issue nm"
proof -
  obtain c cs where "str_int n = c # cs" "c \<in> set ''-0123456789''"
    using str_int_hd by blast
  then show ?thesis by (auto simp: uv_count_warning_def missing_uv_issue_def quoted_def)
qed

section \<open>The report of \<open>validate_file\<close>\<close>

lemma validate_scene_fields:
  "issues (validate_scene fmt p d) =
     (let r = validate_materials (data_materials d)
                (validate_objects fmt (data_objects d) (new_report p))
      in issues r @ (if total_vertices (stats r) > MAX_VERTICES_LOD0
                     then [total_vertices_issue (total_vertices (stats r))] else []))"
  "warnings (validate_scene fmt p d) =
     warnings (validate_materials (data_materials d)
       (validate_objects fmt (data_objects d) (new_report p)))"
  "stats (validate_scene fmt p d) =
     stats (validate_materials (data_materials d)
       (validate_objects fmt (data_objects d) (new_report p)))"
  "valid (validate_scene fmt p d) = (issues (validate_scene fmt p d) = [])"
  by (simp_all add: validate_scene_def Let_def report.defs validation_report.defs add_issue_simps)

lemma validate_file_report:
  "validate_file sys fmt self filepath w = (Inr (rep, self'), w') \<Longrightarrow>
     rep = validate_scene fmt filepath (bpy_data_of sys w')"
  by (auto simp: validate_file_def Let_def split: prod.splits option.splits)

lemma validate_file_fixture:
  "validate_file (fixture_system (scene_fixture d)) fmt new_validator p [] =
     (Inr (validate_scene fmt p d,
           \<lparr>validator_results = [validate_scene fmt p d],
            total_issues = int (length (issues (validate_scene fmt p d)))\<rparr>),
      [''read_homefile'', ''open_mainfile '' @ str_path p])"
  by (simp add: validate_file_def fixture_system_def scene_fixture_def new_validator_def Let_def)

lemma validate_model_valid:
  "mr_valid (validate_model fmt d p) = (mr_issues (validate_model fmt d p) = [])"
  by (simp add: validate_model_def split: prod.splits)

text \<open>
  C1. Whenever \<open>validate_file\<close> returns a report, its \<open>valid\<close> field equals "the issue
  list is empty", where the issue list is the final one, after the walk over the objects,
  the walk over the materials and the check of the vertex total. The warning list plays no
  part: a report with no issue and some warning is valid. The same equation holds for the
  dict that \<open>validate_model\<close> of the batch script returns.
\<close>

theorem valid_iff_no_issues:
  "validate_file sys fmt self filepath w = (Inr (rep, self'), w') \<Longrightarrow>
     valid rep = (issues rep = []) \<and>
     (issues rep = [] \<and> warnings rep \<noteq> [] \<longrightarrow> valid rep) \<and>
     mr_valid (validate_model fmt d filepath) = (mr_issues (validate_model fmt d filepath) = [])"
proof -
  assume "validate_file sys fmt self filepath w = (Inr (rep, self'), w')"
  then have "rep = validate_scene fmt filepath (bpy_data_of sys w')"
    by (rule validate_file_report)
  then have "valid rep = (issues rep = [])"
    by (simp add: validate_scene_fields(4))
  then show ?thesis
    by (simp add: validate_model_valid)
qed

theorem valid_iff_no_issues_witness:
  "validate_file (fixture_system (scene_fixture warnings_only_scene)) exact_format new_validator
      [''models'', ''crate.blend''] [] =
     (Inr (validate_scene exact_format [''models'', ''crate.blend''] warnings_only_scene,
           \<lparr>validator_results =
              [validate_scene exact_format [''models'', ''crate.blend''] warnings_only_scene],
            total_issues = 0\<rparr>),
      [''read_homefile'', ''open_mainfile /models/crate.blend'']) \<and>
   issues (validate_scene exact_format [''models'', ''crate.blend''] warnings_only_scene) = [] \<and>
   warnings (validate_scene exact_format [''models'', ''crate.blend''] warnings_only_scene) =
     [quoted ''Crate'' @ '': Consider UE5 naming: SM_ (static), SK_ (skeletal)''] \<and>
   valid (validate_scene exact_format [''models'', ''crate.blend''] warnings_only_scene)"
proof -
  let ?p = "[''models'', ''crate.blend'']"
  let ?rep = "validate_scene exact_format ?p warnings_only_scene"
  have i: "issues ?rep = []"
    by code_simp
  have ws: "warnings ?rep = [quoted ''Crate'' @ '': Consider UE5 naming: SM_ (static), SK_ (skeletal)'']"
    by code_simp
  have sp: "str_path ?p = ''/models/crate.blend''"
    by (simp add: str_path_def)
  have run: "validate_file (fixture_system (scene_fixture warnings_only_scene)) exact_format
      new_validator ?p [] =
     (Inr (?rep, \<lparr>validator_results = [?rep], total_issues = 0\<rparr>),
      [''read_homefile'', ''open_mainfile /models/crate.blend''])"
    using validate_file_fixture [of warnings_only_scene exact_format ?p] i sp by simp
  from valid_iff_no_issues [OF run] i have "valid ?rep" by simp
  with run i ws show ?thesis by blast
qed

section \<open>A scene without meshes and armatures\<close>

lemma validate_objects_other:
  "list_all is_other objs \<Longrightarrow> validate_objects fmt objs r = r"
  by (induction objs arbitrary: r)
    (auto simp: is_other_def validate_object_def split: object_data.splits)

lemma validate_materials_fields:
  "issues (validate_materials mats r) = issues r"
  "objects (validate_materials mats r) = objects r"
  "total_vertices (stats (validate_materials mats r)) = total_vertices (stats r)"
  "total_faces (stats (validate_materials mats r)) = total_faces (stats r)"
  "mesh_objects (stats (validate_materials mats r)) = mesh_objects (stats r)"
  "armatures (stats (validate_materials mats r)) = armatures (stats r)"
  "materials (stats (validate_materials mats r)) = materials (stats r) + int (length mats)"
  "warnings (validate_materials mats r) =
     warnings r @ map (\<lambda>mat. material_warning (mat_name mat)) (filter (\<lambda>mat. \<not> use_nodes mat) mats)"
  by (induction mats arbitrary: r) (simp_all add: Let_def add_warning_simps)

lemma new_report_fields:
  "issues (new_report p) = []"
  "warnings (new_report p) = []"
  "stats (new_report p) =
     \<lparr>total_vertices = 0, total_faces = 0, mesh_objects = 0, armatures = 0, materials = 0\<rparr>"
  by (simp_all add: new_report_def)

text \<open>
  C8, as the code has it. For every scene without mesh objects and without armature
  objects, the report that \<open>validate_file\<close> returns has no issue and is valid, and its
  vertex total, face total, mesh-object count and armature count are zero. The material
  count is the number of materials of the scene, and the warnings are one per material that
  does not use nodes, in order: both are empty or zero when the scene has no material.
\<close>

theorem scene_without_meshes_and_armatures:
  "validate_file sys fmt self filepath w = (Inr (rep, self'), w') \<Longrightarrow>
   no_mesh_no_armature (bpy_data_of sys w') \<Longrightarrow>
     issues rep = [] \<and> valid rep \<and>
     total_vertices (stats rep) = 0 \<and> total_faces (stats rep) = 0 \<and>
     mesh_objects (stats rep) = 0 \<and> armatures (stats rep) = 0 \<and>
     materials (stats rep) = int (length (data_materials (bpy_data_of sys w'))) \<and>
     warnings rep =
       map (\<lambda>mat. material_warning (mat_name mat))
         (filter (\<lambda>mat. \<not> use_nodes mat) (data_materials (bpy_data_of sys w'))) \<and>
     (data_materials (bpy_data_of sys w') = [] \<longrightarrow>
        warnings rep = [] \<and> materials (stats rep) = 0)"
proof -
  assume run: "validate_file sys fmt self filepath w = (Inr (rep, self'), w')"
    and none: "no_mesh_no_armature (bpy_data_of sys w')"
  let ?d = "bpy_data_of sys w'"
  have rep: "rep = validate_scene fmt filepath ?d"
    using run by (rule validate_file_report)
  have walk: "validate_objects fmt (data_objects ?d) (new_report filepath) = new_report filepath"
    using none by (simp add: no_mesh_no_armature_def validate_objects_other)
  have i: "issues rep = []"
    by (simp add: rep validate_scene_fields Let_def walk validate_materials_fields
        new_report_fields MAX_VERTICES_LOD0_def)
  have v: "valid rep"
    using i by (simp add: rep validate_scene_fields(4))
  have s: "total_vertices (stats rep) = 0" "total_faces (stats rep) = 0"
    "mesh_objects (stats rep) = 0" "armatures (stats rep) = 0"
    "materials (stats rep) = int (length (data_materials ?d))"
    by (simp_all add: rep validate_scene_fields walk validate_materials_fields new_report_fields)
  have ws: "warnings rep =
       map (\<lambda>mat. material_warning (mat_name mat))
         (filter (\<lambda>mat. \<not> use_nodes mat) (data_materials ?d))"
    by (simp add: rep validate_scene_fields walk validate_materials_fields new_report_fields)
  from i v s ws show ?thesis by simp
qed

theorem scene_without_meshes_and_armatures_witness:
  "validate_file (fixture_system (scene_fixture empty_scene)) exact_format new_validator
      [''models'', ''empty.blend''] [] =
     (Inr (validate_scene exact_format [''models'', ''empty.blend''] empty_scene,
           \<lparr>validator_results = [validate_scene exact_format [''models'', ''empty.blend''] empty_scene],
            total_issues = 0\<rparr>),
      [''read_homefile'', ''open_mainfile /models/empty.blend'']) \<and>
   no_mesh_no_armature empty_scene \<and>
   data_materials empty_scene = [] \<and>
   issues (validate_scene exact_format [''models'', ''empty.blend''] empty_scene) = [] \<and>
   warnings (validate_scene exact_format [''models'', ''empty.blend''] empty_scene) = [] \<and>
   materials (stats (validate_scene exact_format [''models'', ''empty.blend''] empty_scene)) = 0 \<and>
   valid (validate_scene exact_format [''models'', ''empty.blend''] empty_scene)"
proof -
  let ?p = "[''models'', ''empty.blend'']"
  let ?sys = "fixture_system (scene_fixture empty_scene)"
  let ?rep = "validate_scene exact_format ?p empty_scene"
  have sp: "str_path ?p = ''/models/empty.blend''"
    by (simp add: str_path_def)
  have i: "issues ?rep = []"
    by code_simp
  have run: "validate_file ?sys exact_format new_validator ?p [] =
     (Inr (?rep, \<lparr>validator_results = [?rep], total_issues = 0\<rparr>),
      [''read_homefile'', ''open_mainfile /models/empty.blend''])"
    using validate_file_fixture [of empty_scene exact_format ?p] i sp by simp
  have d: "bpy_data_of ?sys w = empty_scene" for w
    by (simp add: fixture_system_def scene_fixture_def)
  have none: "no_mesh_no_armature (bpy_data_of ?sys [''read_homefile'', ''open_mainfile /models/empty.blend''])"
    unfolding d by (simp add: no_mesh_no_armature_def empty_scene_def)
  have m: "data_materials empty_scene = []"
    by (simp add: empty_scene_def)
  from scene_without_meshes_and_armatures [OF run none] m
  have "issues ?rep = [] \<and> valid ?rep \<and> warnings ?rep = [] \<and> materials (stats ?rep) = 0"
    by (simp add: d)
  with run none m show ?thesis by (simp add: d)
qed

text \<open>
  The claim as the specification states it fails on a scene that holds a camera and one
  material without nodes: no mesh, no armature, and yet one warning and a material count of
  one.
\<close>

theorem scene_without_meshes_counterexample:
  "no_mesh_no_armature orphan_material_scene \<and>
   fst (validate_file (fixture_system (scene_fixture orphan_material_scene)) exact_format
          new_validator [''models'', ''empty.blend''] []) =
     Inr (validate_scene exact_format [''models'', ''empty.blend''] orphan_material_scene,
          \<lparr>validator_results =
             [validate_scene exact_format [''models'', ''empty.blend''] orphan_material_scene],
           total_issues = 0\<rparr>) \<and>
   warnings (validate_scene exact_format [''models'', ''empty.blend''] orphan_material_scene) =
     [''Material '' @ quoted ''Steel'' @ '': not using nodes''] \<and>
   materials (stats (validate_scene exact_format [''models'', ''empty.blend''] orphan_material_scene)) = 1"
proof -
  let ?p = "[''models'', ''empty.blend'']"
  let ?rep = "validate_scene exact_format ?p orphan_material_scene"
  have a: "no_mesh_no_armature orphan_material_scene"
    by code_simp
  have i: "issues ?rep = []"
    by code_simp
  have ws: "warnings ?rep = [''Material '' @ quoted ''Steel'' @ '': not using nodes'']"
    by code_simp
  have ms: "materials (stats ?rep) = 1"
    by code_simp
  have run: "fst (validate_file (fixture_system (scene_fixture orphan_material_scene)) exact_format
          new_validator ?p []) =
     Inr (?rep, \<lparr>validator_results = [?rep], total_issues = 0\<rparr>)"
    using validate_file_fixture [of orphan_material_scene exact_format ?p] i by simp
  from a run ws ms show ?thesis by blast
qed

section \<open>binary64 values around the tolerance\<close>

text \<open>
  The scale components are rationals in this theory; in Python they are binary64 floats.
  For \<open>1/2 \<le> s \<le> 2\<close> the value \<open>s\<close> is a multiple of \<open>2 ^ -53\<close> and the difference
  \<open>s - 1.0\<close> of two binary64 values within a factor of two of each other is again a
  binary64 value, so \<open>abs(s - 1.0)\<close> is computed without rounding. The literal \<open>0.001\<close>
  denotes the binary64 value \<open>4611686018427388 / 2 ^ 62\<close>, the one nearest to \<open>1/1000\<close>. On
  the multiples of \<open>2 ^ -53\<close> the comparison with that value and the comparison with
  \<open>1/1000\<close> agree, which is what the second lemma says. Outside the range the difference
  is above \<open>1/2\<close> in either reading.
\<close>

lemma tolerance_binary64:
  "(4611686018427388::int) \<in> {2 ^ 52 ..< 2 ^ 53}"
  "\<bar>4611686018427388 / 2 ^ 62 - SCALE_TOLERANCE\<bar> < 1 / 2 ^ 63"
  by (simp_all add: SCALE_TOLERANCE_def)

lemma grid_threshold:
  "((k::int) * 1000 > 2 ^ 53) = (k \<ge> 9007199254741)"
  "((k::int) * 2 ^ 9 > 4611686018427388) = (k \<ge> 9007199254741)"
  by auto

lemma tolerance_on_binary64_grid:
  "(\<bar>of_int m / 2 ^ 53 - 1.0\<bar> > SCALE_TOLERANCE) =
   (\<bar>of_int m / 2 ^ 53 - 1.0\<bar> > (4611686018427388 / 2 ^ 62 :: rat))"
proof -
  let ?k = "\<bar>m - 2 ^ 53\<bar>"
  have d: "\<bar>of_int m / 2 ^ 53 - 1.0\<bar> = (of_int ?k :: rat) / 2 ^ 53"
  proof -
    have "of_int m / 2 ^ 53 - (1.0::rat) = of_int (m - 2 ^ 53) / 2 ^ 53"
      by (simp add: field_simps)
    then have "\<bar>of_int m / 2 ^ 53 - (1.0::rat)\<bar> = \<bar>of_int (m - 2 ^ 53) / 2 ^ 53\<bar>"
      by (rule arg_cong)
    also have "\<dots> = \<bar>of_int (m - 2 ^ 53)\<bar> / \<bar>2 ^ 53 :: rat\<bar>"
      by (rule abs_divide)
    also have "\<bar>2 ^ 53 :: rat\<bar> = 2 ^ 53"
      by simp
    also have "\<bar>of_int (m - 2 ^ 53) :: rat\<bar> = of_int ?k"
      by (rule of_int_abs [symmetric])
    finally show ?thesis .
  qed
  have a: "((of_int ?k :: rat) / 2 ^ 53 > SCALE_TOLERANCE) = (?k \<ge> 9007199254741)"
  proof -
    have "((of_int ?k :: rat) / 2 ^ 53 > 1 / 1000) = ((of_int ?k :: rat) * 1000 > 2 ^ 53)"
      by (simp add: field_simps)
    also have "\<dots> = (of_int (?k * 1000) > (of_int (2 ^ 53) :: rat))"
      by simp
    also have "\<dots> = (?k * 1000 > 2 ^ 53)"
      by (simp only: of_int_less_iff)
    also have "\<dots> = (?k \<ge> 9007199254741)"
      by (rule grid_threshold)
    finally show ?thesis by (simp add: SCALE_TOLERANCE_def)
  qed
  have b: "((of_int ?k :: rat) / 2 ^ 53 > 4611686018427388 / 2 ^ 62) = (?k \<ge> 9007199254741)"
  proof -
    have "((of_int ?k :: rat) / 2 ^ 53 > 4611686018427388 / 2 ^ 62) =
        ((of_int ?k :: rat) * 2 ^ 9 > 4611686018427388)"
      by (simp add: field_simps)
    also have "\<dots> = (of_int (?k * 2 ^ 9) > (of_int 4611686018427388 :: rat))"
      by simp
    also have "\<dots> = (?k * 2 ^ 9 > 4611686018427388)"
      by (simp only: of_int_less_iff)
    also have "\<dots> = (?k \<ge> 9007199254741)"
      by (rule grid_threshold)
    finally show ?thesis .
  qed
  show ?thesis unfolding d a b ..
qed

section \<open>What the validator emits for each object\<close>

lemma validate_mesh_scale_uv_issues:
  "issues (validate_mesh fmt obj m r) =
     issues r @ scale_issues fmt obj @
     (if uv_layers m = [] then [missing_uv_issue (obj_name obj)] else [])"
  by (simp only: validate_mesh_issues scale_issues_def)

lemma validate_armature_issues:
  "issues (validate_armature obj arm r) =
     issues r @
     (if int (length (bones arm)) > 256
      then [bone_limit_issue (obj_name obj) (int (length (bones arm)))] else []) @
     (if int (length (bones arm)) = 0 then [no_bones_issue (obj_name obj)] else [])"
  by (simp add: validate_armature_def Let_def add_issue_simps add_warning_simps MAX_BONES_def)

lemma check_warnings:
  "warnings (check_rotation obj r) =
     warnings r @ (if list_ex (\<lambda>x. \<bar>x\<bar> > 0.001) (components (rotation_euler obj))
                   then [rotation_warning (obj_name obj)] else [])"
  "warnings (check_uv obj m r) =
     warnings r @ (if length (uv_layers m) > 2
                   then [uv_count_warning (obj_name obj) (int (length (uv_layers m)))] else [])"
  "warnings (check_ngons obj m r) =
     warnings r @
     (if int (length (filter (\<lambda>p. length (poly_vertices p) > 4) (polygons m))) > 0
      then [ngons_warning (obj_name obj)
              (int (length (filter (\<lambda>p. length (poly_vertices p) > 4) (polygons m))))]
      else [])"
  "warnings (check_loose obj m r) =
     warnings r @
     (if int (length (vertices m)) - int (card (set (concat (map edge_vertices (edges m))))) > 0
      then [loose_warning (obj_name obj)
              (int (length (vertices m)) -
               int (card (set (concat (map edge_vertices (edges m))))))]
      else [])"
  "warnings (check_naming obj r) =
     warnings r @
     (if \<not> (prefix ''SM_'' (obj_name obj) \<or> prefix ''SK_'' (obj_name obj) \<or>
             prefix ''S_'' (obj_name obj))
      then [naming_warning (obj_name obj)] else [])"
  by (auto simp: check_rotation_def check_uv_def check_ngons_def check_loose_def
      check_naming_def Let_def add_warning_simps add_issue_simps)

lemma validate_mesh_warnings:
  "warnings (validate_mesh fmt obj m r) =
     warnings r @
     (if list_ex (\<lambda>x. \<bar>x\<bar> > 0.001) (components (rotation_euler obj))
      then [rotation_warning (obj_name obj)] else []) @
     (if length (uv_layers m) > 2
      then [uv_count_warning (obj_name obj) (int (length (uv_layers m)))] else []) @
     (if int (length (filter (\<lambda>p. length (poly_vertices p) > 4) (polygons m))) > 0
      then [ngons_warning (obj_name obj)
              (int (length (filter (\<lambda>p. length (poly_vertices p) > 4) (polygons m))))]
      else []) @
     (if int (length (vertices m)) - int (card (set (concat (map edge_vertices (edges m))))) > 0
      then [loose_warning (obj_name obj)
              (int (length (vertices m)) -
               int (card (set (concat (map edge_vertices (edges m))))))]
      else []) @
     (if \<not> (prefix ''SM_'' (obj_name obj) \<or> prefix ''SK_'' (obj_name obj) \<or>
             prefix ''S_'' (obj_name obj))
      then [naming_warning (obj_name obj)] else [])"
  by (simp only: validate_mesh_def Let_def check_warnings check_scale_frame append_assoc)
    simp

lemma validate_armature_warnings:
  "warnings (validate_armature obj arm r) =
     warnings r @
     (if length (filter (\<lambda>b. bone_parent b = None) (bones arm)) > 1
      then [root_bones_warning (obj_name obj)
              (int (length (filter (\<lambda>b. bone_parent b = None) (bones arm))))]
      else [])"
  by (simp add: validate_armature_def Let_def add_issue_simps add_warning_simps)

lemma validate_object_issues:
  "issues (validate_object fmt obj r) = issues r @ object_issues fmt obj"
proof (cases "obj_data obj")
  case (MESH m)
  then have "issues (validate_object fmt obj r') =
      issues r' @ scale_issues fmt obj @
      (if uv_layers m = [] then [missing_uv_issue (obj_name obj)] else [])" for r'
    by (simp add: validate_object_def validate_mesh_scale_uv_issues)
  then show ?thesis
    by (simp add: object_issues_def new_issues_def)
next
  case (ARMATURE a)
  then have "issues (validate_object fmt obj r') =
     issues r' @
     (if int (length (bones a)) > 256
      then [bone_limit_issue (obj_name obj) (int (length (bones a)))] else []) @
     (if int (length (bones a)) = 0 then [no_bones_issue (obj_name obj)] else [])" for r'
    by (simp only: validate_object_def object_data.case validate_armature_issues)
  then show ?thesis
    by (simp add: object_issues_def new_issues_def)
next
  case (OTHER t)
  then show ?thesis
    by (simp add: validate_object_def object_issues_def new_issues_def)
qed

lemma validate_object_warnings:
  "warnings (validate_object fmt obj r) = warnings r @ object_warnings fmt obj"
proof (cases "obj_data obj")
  case (MESH m)
  then have "validate_object fmt obj r' = validate_mesh fmt obj m r'" for r'
    by (simp add: validate_object_def)
  then show ?thesis
    by (simp only: object_warnings_def new_warnings_def validate_mesh_warnings) simp
next
  case (ARMATURE a)
  then have "validate_object fmt obj r' = validate_armature obj a r'" for r'
    by (simp add: validate_object_def)
  then show ?thesis
    by (simp only: object_warnings_def new_warnings_def validate_armature_warnings) simp
next
  case (OTHER t)
  then show ?thesis
    by (simp add: validate_object_def object_warnings_def new_warnings_def)
qed

lemma object_issues_mesh:
  "obj_data obj = MESH m \<Longrightarrow>
     object_issues fmt obj =
       scale_issues fmt obj @
       (if uv_layers m = [] then [missing_uv_issue (obj_name obj)] else [])"
  by (simp add: object_issues_def new_issues_def validate_object_def
      validate_mesh_scale_uv_issues)

lemma object_issues_armature:
  "obj_data obj = ARMATURE a \<Longrightarrow>
     object_issues fmt obj =
       (if int (length (bones a)) > 256
        then [bone_limit_issue (obj_name obj) (int (length (bones a)))] else []) @
       (if int (length (bones a)) = 0 then [no_bones_issue (obj_name obj)] else [])"
  by (simp only: object_issues_def new_issues_def validate_object_def object_data.case
      validate_armature_issues) simp

lemma object_warnings_mesh_uv:
  "obj_data obj = MESH m \<Longrightarrow> length (uv_layers m) > 2 \<Longrightarrow>
     uv_count_warning (obj_name obj) (int (length (uv_layers m)))
       \<in> set (object_warnings fmt obj)"
  by (simp only: object_warnings_def new_warnings_def validate_object_def object_data.case
      validate_mesh_warnings) simp

lemma validate_objects_issues:
  "issues (validate_objects fmt objs r) = issues r @ concat (map (object_issues fmt) objs)"
  by (induction objs arbitrary: r) (simp_all add: validate_object_issues)

lemma validate_objects_warnings:
  "warnings (validate_objects fmt objs r) = warnings r @ concat (map (object_warnings fmt) objs)"
  by (induction objs arbitrary: r) (simp_all add: validate_object_warnings)

lemma validate_file_issues:
  assumes "validate_file sys fmt self filepath w = (Inr (rep, self'), w')"
  shows "issues rep =
     concat (map (object_issues fmt) (data_objects (bpy_data_of sys w'))) @
     (if total_vertices (stats rep) > MAX_VERTICES_LOD0
      then [total_vertices_issue (total_vertices (stats rep))] else [])"
proof -
  have "rep = validate_scene fmt filepath (bpy_data_of sys w')"
    using assms by (rule validate_file_report)
  then show ?thesis
    by (simp add: validate_scene_fields Let_def validate_materials_fields
        validate_objects_issues new_report_fields)
qed

lemma validate_file_warnings:
  assumes "validate_file sys fmt self filepath w = (Inr (rep, self'), w')"
  shows "warnings rep =
     concat (map (object_warnings fmt) (data_objects (bpy_data_of sys w'))) @
     map (\<lambda>mat. material_warning (mat_name mat))
       (filter (\<lambda>mat. \<not> use_nodes mat) (data_materials (bpy_data_of sys w')))"
proof -
  have "rep = validate_scene fmt filepath (bpy_data_of sys w')"
    using assms by (rule validate_file_report)
  then show ?thesis
    by (simp add: validate_scene_fields validate_materials_fields validate_objects_warnings
        new_report_fields)
qed

lemma object_issues_in_report:
  assumes "validate_file sys fmt self filepath w = (Inr (rep, self'), w')"
    and "obj \<in> set (data_objects (bpy_data_of sys w'))"
  shows "set (object_issues fmt obj) \<subseteq> set (issues rep)"
  using assms(2) by (auto simp: validate_file_issues [OF assms(1)])

lemma object_warnings_in_report:
  assumes "validate_file sys fmt self filepath w = (Inr (rep, self'), w')"
    and "obj \<in> set (data_objects (bpy_data_of sys w'))"
  shows "set (object_warnings fmt obj) \<subseteq> set (warnings rep)"
  using assms(2) by (auto simp: validate_file_warnings [OF assms(1)])

lemma scale_issue_eq_iff:
  "i < 3 \<Longrightarrow> j < 3 \<Longrightarrow> scale_issue fmt nm i s e = scale_issue fmt nm j s' e' \<Longrightarrow> i = j"
  by (blast dest: scale_issue_axis intro: axis_letter_inj)

lemma mesh_object_simps:
  "obj_name (mesh_object nm sc uvs) = nm"
  "scale (mesh_object nm sc uvs) = sc"
  "obj_data (mesh_object nm sc uvs) = MESH (quad_mesh uvs)"
  "rotation_euler (mesh_object nm sc uvs) = (0, 0, 0)"
  "uv_layers (quad_mesh uvs) = uvs"
  by (simp_all add: mesh_object_def quad_mesh_def)

lemma chain_armature_length: "length (bones (chain_armature n)) = n"
  by (simp add: chain_armature_def)

lemma armature_object_simps:
  "obj_name (armature_object nm n) = nm"
  "obj_data (armature_object nm n) = ARMATURE (chain_armature n)"
  by (simp_all add: armature_object_def)

lemma scale_issue_in_object_issues:
  assumes "obj_data obj = MESH mesh" and i: "i < 3"
  shows "(scale_issue fmt (obj_name obj) i (components (scale obj) ! i) 1.0
            \<in> set (object_issues fmt obj)) =
         (\<bar>components (scale obj) ! i - 1.0\<bar> > 0.001)"
proof -
  let ?s = "components (scale obj)"
  let ?m = "\<lambda>k. scale_issue fmt (obj_name obj) k (?s ! k) 1.0"
  have other: "?m i \<noteq> ?m k" if "k < 3" "k \<noteq> i" for k
    using scale_issue_eq_iff [OF i that(1)] that(2) by blast
  have uv: "?m i \<noteq> missing_uv_issue (obj_name obj)"
    by (rule scale_issue_not_missing_uv)
  from i have "i = 0 \<or> i = 1 \<or> i = 2" by auto
  then show ?thesis
  proof (elim disjE)
    assume "i = 0"
    with other [of 1] other [of 2] uv show ?thesis
      by (simp add: object_issues_mesh [OF assms(1)] scale_issues_def)
  next
    assume "i = 1"
    with other [of 0] other [of 2] uv show ?thesis
      by (simp add: object_issues_mesh [OF assms(1)] scale_issues_def)
  next
    assume "i = 2"
    with other [of 0] other [of 1] uv show ?thesis
      by (simp add: object_issues_mesh [OF assms(1)] scale_issues_def)
  qed
qed

lemma object_issues_validate_mesh:
  "obj_data obj = MESH mesh \<Longrightarrow>
     object_issues fmt obj = new_issues report (validate_mesh fmt obj mesh report)"
  by (simp add: object_issues_mesh new_issues_def validate_mesh_scale_uv_issues)

lemma object_issues_validate_armature:
  "obj_data obj = ARMATURE armature \<Longrightarrow>
     object_issues fmt obj = new_issues report (validate_armature obj armature report)"
  by (simp only: object_issues_armature new_issues_def validate_armature_issues) simp

lemma fixture_scene: "bpy_data_of (fixture_system (scene_fixture d)) w = d"
  by (simp add: fixture_system_def scene_fixture_def)

text \<open>
  C5. Whenever \<open>validate_file\<close> returns a report, the issue list of the report is the
  issues emitted for the objects of the scene, object after object in the order of
  \<open>bpy.data.objects\<close>, followed by the issue on the vertex total if any. For every mesh
  object of the scene, what is emitted for it is what \<open>_validate_mesh\<close> appends, and for each
  of its three scale axes \<open>i\<close> the issue that names the object, the axis and the value of the
  axis is among the issues emitted for the object exactly when \<open>|s - 1.0| > 0.001\<close>; when it
  is, the issue is in the report. Scale components are exact rationals here; the section
  on binary64 values relates the comparison to the one Python makes. At \<open>1.0009\<close> no issue
  is emitted for the axis, at \<open>1.0011\<close> one is.
\<close>

theorem scale_issue_iff_out_of_tolerance:
  "validate_file sys fmt self filepath w = (Inr (rep, self'), w') \<Longrightarrow>
     issues rep =
       concat (map (object_issues fmt) (data_objects (bpy_data_of sys w'))) @
       (if total_vertices (stats rep) > MAX_VERTICES_LOD0
        then [total_vertices_issue (total_vertices (stats rep))] else []) \<and>
     (\<forall>obj \<in> set (data_objects (bpy_data_of sys w')). \<forall>mesh. obj_data obj = MESH mesh \<longrightarrow>
        object_issues fmt obj = new_issues report (validate_mesh fmt obj mesh report) \<and>
        (\<forall>i<3.
           ((scale_issue fmt (obj_name obj) i (components (scale obj) ! i) 1.0
               \<in> set (object_issues fmt obj)) =
            (\<bar>components (scale obj) ! i - 1.0\<bar> > 0.001)) \<and>
           (\<bar>components (scale obj) ! i - 1.0\<bar> > 0.001 \<longrightarrow>
              scale_issue fmt (obj_name obj) i (components (scale obj) ! i) 1.0
                \<in> set (issues rep))))"
proof -
  assume run: "validate_file sys fmt self filepath w = (Inr (rep, self'), w')"
  have a: "issues rep =
       concat (map (object_issues fmt) (data_objects (bpy_data_of sys w'))) @
       (if total_vertices (stats rep) > MAX_VERTICES_LOD0
        then [total_vertices_issue (total_vertices (stats rep))] else [])"
    using run by (rule validate_file_issues)
  have b: "object_issues fmt obj = new_issues report (validate_mesh fmt obj mesh report) \<and>
        (\<forall>i<3.
           ((scale_issue fmt (obj_name obj) i (components (scale obj) ! i) 1.0
               \<in> set (object_issues fmt obj)) =
            (\<bar>components (scale obj) ! i - 1.0\<bar> > 0.001)) \<and>
           (\<bar>components (scale obj) ! i - 1.0\<bar> > 0.001 \<longrightarrow>
              scale_issue fmt (obj_name obj) i (components (scale obj) ! i) 1.0
                \<in> set (issues rep)))"
    if obj: "obj \<in> set (data_objects (bpy_data_of sys w'))" and m: "obj_data obj = MESH mesh"
    for obj mesh
  proof (intro conjI allI impI)
    show "object_issues fmt obj = new_issues report (validate_mesh fmt obj mesh report)"
      using m by (rule object_issues_validate_mesh)
  next
    fix i :: nat assume "i < 3"
    then show "(scale_issue fmt (obj_name obj) i (components (scale obj) ! i) 1.0
               \<in> set (object_issues fmt obj)) =
            (\<bar>components (scale obj) ! i - 1.0\<bar> > 0.001)"
      by (rule scale_issue_in_object_issues [OF m])
  next
    fix i :: nat assume lt: "i < 3" and off: "\<bar>components (scale obj) ! i - 1.0\<bar> > 0.001"
    from scale_issue_in_object_issues [OF m lt, of fmt] off
    have "scale_issue fmt (obj_name obj) i (components (scale obj) ! i) 1.0
        \<in> set (object_issues fmt obj)"
      by blast
    then show "scale_issue fmt (obj_name obj) i (components (scale obj) ! i) 1.0
        \<in> set (issues rep)"
      using object_issues_in_report [OF run obj] by blast
  qed
  from a b show ?thesis by blast
qed

theorem scale_issue_iff_out_of_tolerance_witness:
  "validate_file (fixture_system (scene_fixture scaled_scene)) exact_format new_validator
      [''models'', ''crate.blend''] [] =
     (Inr (validate_scene exact_format [''models'', ''crate.blend''] scaled_scene,
           \<lparr>validator_results =
              [validate_scene exact_format [''models'', ''crate.blend''] scaled_scene],
            total_issues = 1\<rparr>),
      [''read_homefile'', ''open_mainfile /models/crate.blend'']) \<and>
   mesh_object ''SM_Crate'' (1.0009, 1.0011, 1.0) [''UVMap''] \<in> set (data_objects scaled_scene) \<and>
   scale_issue exact_format ''SM_Crate'' 0 1.0009 1.0
     \<notin> set (object_issues exact_format
              (mesh_object ''SM_Crate'' (1.0009, 1.0011, 1.0) [''UVMap''])) \<and>
   scale_issue exact_format ''SM_Crate'' 1 1.0011 1.0
     \<in> set (issues (validate_scene exact_format [''models'', ''crate.blend''] scaled_scene)) \<and>
   issues (validate_scene exact_format [''models'', ''crate.blend''] scaled_scene) =
     [quoted ''SM_Crate'' @ '': Scale Y=1.001 (expected 1.0). Apply scale with Ctrl+A'']"
proof -
  let ?p = "[''models'', ''crate.blend'']"
  let ?sys = "fixture_system (scene_fixture scaled_scene)"
  let ?obj = "mesh_object ''SM_Crate'' (1.0009, 1.0011, 1.0) [''UVMap'']"
  let ?rep = "validate_scene exact_format ?p scaled_scene"
  have sp: "str_path ?p = ''/models/crate.blend''"
    by (simp add: str_path_def)
  have i: "issues ?rep =
     [quoted ''SM_Crate'' @ '': Scale Y=1.001 (expected 1.0). Apply scale with Ctrl+A'']"
    by code_simp
  have run: "validate_file ?sys exact_format new_validator ?p [] =
     (Inr (?rep, \<lparr>validator_results = [?rep], total_issues = 1\<rparr>),
      [''read_homefile'', ''open_mainfile /models/crate.blend''])"
    using validate_file_fixture [of scaled_scene exact_format ?p] i sp by simp
  have mem: "?obj \<in> set (data_objects (bpy_data_of ?sys [''read_homefile'', ''open_mainfile /models/crate.blend'']))"
    unfolding fixture_scene by (simp add: scaled_scene_def)
  have d: "obj_data ?obj = MESH (quad_mesh [''UVMap''])"
    by (simp add: mesh_object_simps)
  note inst = scale_issue_iff_out_of_tolerance [OF run]
  from inst mem d have x: "(scale_issue exact_format (obj_name ?obj) 0 (components (scale ?obj) ! 0) 1.0
       \<in> set (object_issues exact_format ?obj)) =
     (\<bar>components (scale ?obj) ! 0 - 1.0\<bar> > 0.001)"
    by (metis zero_less_numeral)
  from inst mem d have y: "\<bar>components (scale ?obj) ! 1 - 1.0\<bar> > 0.001 \<longrightarrow>
     scale_issue exact_format (obj_name ?obj) 1 (components (scale ?obj) ! 1) 1.0 \<in> set (issues ?rep)"
    by (metis one_less_numeral_iff semiring_norm(77))
  have a: "scale_issue exact_format ''SM_Crate'' 0 1.0009 1.0
     \<notin> set (object_issues exact_format ?obj)"
    using x by (simp add: mesh_object_simps components_def)
  have b: "scale_issue exact_format ''SM_Crate'' 1 1.0011 1.0 \<in> set (issues ?rep)"
    using y by (simp add: mesh_object_simps components_def)
  have m2: "?obj \<in> set (data_objects scaled_scene)"
    by (simp add: scaled_scene_def)
  from run m2 a b i show ?thesis by blast
qed

section \<open>The bone checks of an armature\<close>

lemma object_warnings_validate_mesh:
  "obj_data obj = MESH mesh \<Longrightarrow>
     object_warnings fmt obj = new_warnings report (validate_mesh fmt obj mesh report)"
  by (simp only: object_warnings_def new_warnings_def validate_object_def object_data.case
      validate_mesh_warnings) simp

text \<open>
  C6. Whenever \<open>validate_file\<close> returns a report, its issue list is the issues emitted for
  the objects of the scene in order, followed by the issue on the vertex total if any. For
  every armature object of the scene, what is emitted for it is what \<open>_validate_armature\<close>
  appends: the bone-limit issue, naming the object and the bone count, exactly when the
  bone count is above 256, followed by the no-bones issue exactly when the bone count is
  zero; every issue emitted for the object is in the report. With 256 bones nothing is
  emitted; with 257 the issue names 257.
\<close>

theorem bone_issues_iff:
  "validate_file sys fmt self filepath w = (Inr (rep, self'), w') \<Longrightarrow>
     issues rep =
       concat (map (object_issues fmt) (data_objects (bpy_data_of sys w'))) @
       (if total_vertices (stats rep) > MAX_VERTICES_LOD0
        then [total_vertices_issue (total_vertices (stats rep))] else []) \<and>
     (\<forall>obj \<in> set (data_objects (bpy_data_of sys w')). \<forall>armature.
        obj_data obj = ARMATURE armature \<longrightarrow>
          object_issues fmt obj = new_issues report (validate_armature obj armature report) \<and>
          object_issues fmt obj =
            (if int (length (bones armature)) > 256
             then [bone_limit_issue (obj_name obj) (int (length (bones armature)))] else []) @
            (if int (length (bones armature)) = 0 then [no_bones_issue (obj_name obj)] else []) \<and>
          ((bone_limit_issue (obj_name obj) (int (length (bones armature)))
              \<in> set (object_issues fmt obj)) =
           (int (length (bones armature)) > 256)) \<and>
          ((no_bones_issue (obj_name obj) \<in> set (object_issues fmt obj)) =
           (int (length (bones armature)) = 0)) \<and>
          set (object_issues fmt obj) \<subseteq> set (issues rep))"
proof -
  assume run: "validate_file sys fmt self filepath w = (Inr (rep, self'), w')"
  have a: "issues rep =
       concat (map (object_issues fmt) (data_objects (bpy_data_of sys w'))) @
       (if total_vertices (stats rep) > MAX_VERTICES_LOD0
        then [total_vertices_issue (total_vertices (stats rep))] else [])"
    using run by (rule validate_file_issues)
  have b: "object_issues fmt obj = new_issues report (validate_armature obj armature report) \<and>
          object_issues fmt obj =
            (if int (length (bones armature)) > 256
             then [bone_limit_issue (obj_name obj) (int (length (bones armature)))] else []) @
            (if int (length (bones armature)) = 0 then [no_bones_issue (obj_name obj)] else []) \<and>
          ((bone_limit_issue (obj_name obj) (int (length (bones armature)))
              \<in> set (object_issues fmt obj)) =
           (int (length (bones armature)) > 256)) \<and>
          ((no_bones_issue (obj_name obj) \<in> set (object_issues fmt obj)) =
           (int (length (bones armature)) = 0)) \<and>
          set (object_issues fmt obj) \<subseteq> set (issues rep)"
    if obj: "obj \<in> set (data_objects (bpy_data_of sys w'))"
      and arm: "obj_data obj = ARMATURE armature"
    for obj armature
  proof -
    have ne: "bone_limit_issue (obj_name obj) (int (length (bones armature))) \<noteq>
        no_bones_issue (obj_name obj)"
      by (rule bone_limit_not_no_bones)
    have eq: "object_issues fmt obj =
        (if int (length (bones armature)) > 256
         then [bone_limit_issue (obj_name obj) (int (length (bones armature)))] else []) @
        (if int (length (bones armature)) = 0 then [no_bones_issue (obj_name obj)] else [])"
      using arm by (rule object_issues_armature)
    have sub: "set (object_issues fmt obj) \<subseteq> set (issues rep)"
      using run obj by (rule object_issues_in_report)
    have link: "object_issues fmt obj = new_issues report (validate_armature obj armature report)"
      using arm by (rule object_issues_validate_armature)
    have m1: "(bone_limit_issue (obj_name obj) (int (length (bones armature)))
              \<in> set (object_issues fmt obj)) = (int (length (bones armature)) > 256)"
      using ne by (simp add: eq del: of_nat_eq_0_iff)
    have m2: "(no_bones_issue (obj_name obj) \<in> set (object_issues fmt obj)) =
           (int (length (bones armature)) = 0)"
      using ne by (simp add: eq del: of_nat_eq_0_iff)
    from link eq m1 m2 sub show ?thesis by blast
  qed
  from a b show ?thesis by blast
qed

lemma rig_run:
  "validate_file (fixture_system (scene_fixture (rig_scene n))) exact_format new_validator
      [''models'', ''rig.blend''] [] =
     (Inr (validate_scene exact_format [''models'', ''rig.blend''] (rig_scene n),
           \<lparr>validator_results = [validate_scene exact_format [''models'', ''rig.blend''] (rig_scene n)],
            total_issues =
              int (length (issues (validate_scene exact_format [''models'', ''rig.blend''] (rig_scene n))))\<rparr>),
      [''read_homefile'', ''open_mainfile /models/rig.blend''])"
  using validate_file_fixture [of "rig_scene n" exact_format "[''models'', ''rig.blend'']"]
  by (simp add: str_path_def)

lemma rig_total: "total_vertices (stats (validate_scene fmt p (rig_scene n))) = 0"
  by (simp add: validate_scene_fields validate_materials_fields rig_scene_def
      validate_object_def armature_object_def validate_armature_def Let_def
      add_issue_def add_warning_def new_report_fields)

theorem bone_issues_iff_witness:
  "fst (validate_file (fixture_system (scene_fixture (rig_scene 257))) exact_format new_validator
          [''models'', ''rig.blend''] []) =
     Inr (validate_scene exact_format [''models'', ''rig.blend''] (rig_scene 257),
          \<lparr>validator_results =
             [validate_scene exact_format [''models'', ''rig.blend''] (rig_scene 257)],
           total_issues = 1\<rparr>) \<and>
   armature_object ''Rig'' 256 \<in> set (data_objects (rig_scene 256)) \<and>
   issues (validate_scene exact_format [''models'', ''rig.blend''] (rig_scene 256)) = [] \<and>
   armature_object ''Rig'' 257 \<in> set (data_objects (rig_scene 257)) \<and>
   issues (validate_scene exact_format [''models'', ''rig.blend''] (rig_scene 257)) =
     [quoted ''Rig'' @ '': 257 bones exceeds UE5 limit (256)''] \<and>
   armature_object ''Rig'' 0 \<in> set (data_objects (rig_scene 0)) \<and>
   issues (validate_scene exact_format [''models'', ''rig.blend''] (rig_scene 0)) =
     [quoted ''Rig'' @ '': Armature has no bones'']"
proof -
  let ?p = "[''models'', ''rig.blend'']"
  have m: "bone_limit_issue ''Rig'' 257 = quoted ''Rig'' @ '': 257 bones exceeds UE5 limit (256)''"
    by code_simp
  have objs: "data_objects (bpy_data_of (fixture_system (scene_fixture (rig_scene n))) w) =
      [armature_object ''Rig'' n]" for n w
    by (simp add: fixture_scene rig_scene_def)
  have mem: "armature_object ''Rig'' n \<in> set (data_objects (rig_scene n))" for n
    by (simp add: rig_scene_def)
  have seg: "issues (validate_scene exact_format ?p (rig_scene n)) =
      object_issues exact_format (armature_object ''Rig'' n)" for n
    using bone_issues_iff [OF rig_run, of n]
    by (simp add: objs rig_total MAX_VERTICES_LOD0_def)
  have lst: "object_issues exact_format (armature_object ''Rig'' n) =
      (if int n > 256 then [bone_limit_issue ''Rig'' (int n)] else []) @
      (if int n = 0 then [no_bones_issue ''Rig''] else [])" for n
    using bone_issues_iff [OF rig_run, of n]
    by (simp add: objs armature_object_simps chain_armature_length)
  have a: "issues (validate_scene exact_format ?p (rig_scene 256)) = []"
    by (simp add: seg lst)
  have b: "issues (validate_scene exact_format ?p (rig_scene 257)) =
     [quoted ''Rig'' @ '': 257 bones exceeds UE5 limit (256)'']"
    using m by (simp add: seg lst)
  have c: "issues (validate_scene exact_format ?p (rig_scene 0)) =
     [quoted ''Rig'' @ '': Armature has no bones'']"
    by (simp add: seg lst no_bones_issue_def)
  have run: "fst (validate_file (fixture_system (scene_fixture (rig_scene 257))) exact_format
          new_validator ?p []) =
     Inr (validate_scene exact_format ?p (rig_scene 257),
          \<lparr>validator_results = [validate_scene exact_format ?p (rig_scene 257)],
           total_issues = 1\<rparr>)"
    by (simp add: rig_run b)
  from run mem a b c show ?thesis by blast
qed


section \<open>The UV check of a mesh\<close>

text \<open>
  C7. Whenever \<open>validate_file\<close> returns a report, its issue list is the issues emitted for
  the objects of the scene in order, followed by the issue on the vertex total if any, and
  its warning list is the warnings emitted for the objects in order, followed by the
  warnings on the materials. For every mesh object of the scene, whatever its other
  properties, the issues emitted for it are its scale issues, followed by the missing-UV
  issue exactly when the mesh has no UV layer: with no UV layer the issue is in the report,
  and with any UV layer the UV check emits no issue at all. With more than two UV layers
  the UV-count message is among the warnings emitted for the object and in the warning
  list of the report.
\<close>

theorem uv_issue_and_warning:
  "validate_file sys fmt self filepath w = (Inr (rep, self'), w') \<Longrightarrow>
     issues rep =
       concat (map (object_issues fmt) (data_objects (bpy_data_of sys w'))) @
       (if total_vertices (stats rep) > MAX_VERTICES_LOD0
        then [total_vertices_issue (total_vertices (stats rep))] else []) \<and>
     warnings rep =
       concat (map (object_warnings fmt) (data_objects (bpy_data_of sys w'))) @
       map (\<lambda>mat. material_warning (mat_name mat))
         (filter (\<lambda>mat. \<not> use_nodes mat) (data_materials (bpy_data_of sys w'))) \<and>
     (\<forall>obj \<in> set (data_objects (bpy_data_of sys w')). \<forall>mesh. obj_data obj = MESH mesh \<longrightarrow>
        object_issues fmt obj = new_issues report (validate_mesh fmt obj mesh report) \<and>
        object_warnings fmt obj = new_warnings report (validate_mesh fmt obj mesh report) \<and>
        object_issues fmt obj =
          scale_issues fmt obj @
          (if uv_layers mesh = [] then [missing_uv_issue (obj_name obj)] else []) \<and>
        ((missing_uv_issue (obj_name obj) \<in> set (object_issues fmt obj)) =
         (uv_layers mesh = [])) \<and>
        (uv_layers mesh = [] \<longrightarrow> missing_uv_issue (obj_name obj) \<in> set (issues rep)) \<and>
        (length (uv_layers mesh) > 2 \<longrightarrow>
           object_issues fmt obj = scale_issues fmt obj \<and>
           uv_count_warning (obj_name obj) (int (length (uv_layers mesh)))
             \<in> set (object_warnings fmt obj) \<and>
           uv_count_warning (obj_name obj) (int (length (uv_layers mesh)))
             \<in> set (warnings rep)))"
proof -
  assume run: "validate_file sys fmt self filepath w = (Inr (rep, self'), w')"
  have a: "issues rep =
       concat (map (object_issues fmt) (data_objects (bpy_data_of sys w'))) @
       (if total_vertices (stats rep) > MAX_VERTICES_LOD0
        then [total_vertices_issue (total_vertices (stats rep))] else [])"
    using run by (rule validate_file_issues)
  have a': "warnings rep =
       concat (map (object_warnings fmt) (data_objects (bpy_data_of sys w'))) @
       map (\<lambda>mat. material_warning (mat_name mat))
         (filter (\<lambda>mat. \<not> use_nodes mat) (data_materials (bpy_data_of sys w')))"
    using run by (rule validate_file_warnings)
  have b: "object_issues fmt obj = new_issues report (validate_mesh fmt obj mesh report) \<and>
        object_warnings fmt obj = new_warnings report (validate_mesh fmt obj mesh report) \<and>
        object_issues fmt obj =
          scale_issues fmt obj @
          (if uv_layers mesh = [] then [missing_uv_issue (obj_name obj)] else []) \<and>
        ((missing_uv_issue (obj_name obj) \<in> set (object_issues fmt obj)) =
         (uv_layers mesh = [])) \<and>
        (uv_layers mesh = [] \<longrightarrow> missing_uv_issue (obj_name obj) \<in> set (issues rep)) \<and>
        (length (uv_layers mesh) > 2 \<longrightarrow>
           object_issues fmt obj = scale_issues fmt obj \<and>
           uv_count_warning (obj_name obj) (int (length (uv_layers mesh)))
             \<in> set (object_warnings fmt obj) \<and>
           uv_count_warning (obj_name obj) (int (length (uv_layers mesh)))
             \<in> set (warnings rep))"
    if obj: "obj \<in> set (data_objects (bpy_data_of sys w'))" and m: "obj_data obj = MESH mesh"
    for obj mesh
  proof -
    have link: "object_issues fmt obj = new_issues report (validate_mesh fmt obj mesh report)"
      using m by (rule object_issues_validate_mesh)
    have linkw: "object_warnings fmt obj = new_warnings report (validate_mesh fmt obj mesh report)"
      using m by (rule object_warnings_validate_mesh)
    have eq: "object_issues fmt obj =
          scale_issues fmt obj @
          (if uv_layers mesh = [] then [missing_uv_issue (obj_name obj)] else [])"
      using m by (rule object_issues_mesh)
    have ne: "missing_uv_issue (obj_name obj) \<noteq> scale_issue fmt (obj_name obj) k s e" for k s e
      using scale_issue_not_missing_uv [of fmt "obj_name obj" k s e] by (rule not_sym)
    have mem: "(missing_uv_issue (obj_name obj) \<in> set (object_issues fmt obj)) =
         (uv_layers mesh = [])"
      by (simp add: eq scale_issues_def ne)
    have inrep: "missing_uv_issue (obj_name obj) \<in> set (issues rep)" if "uv_layers mesh = []"
      using mem that object_issues_in_report [OF run obj] by blast
    have many: "object_issues fmt obj = scale_issues fmt obj \<and>
           uv_count_warning (obj_name obj) (int (length (uv_layers mesh)))
             \<in> set (object_warnings fmt obj) \<and>
           uv_count_warning (obj_name obj) (int (length (uv_layers mesh)))
             \<in> set (warnings rep)"
      if gt: "length (uv_layers mesh) > 2"
    proof -
      from gt have "uv_layers mesh \<noteq> []" by auto
      then have i: "object_issues fmt obj = scale_issues fmt obj"
        by (simp add: eq)
      have w: "uv_count_warning (obj_name obj) (int (length (uv_layers mesh)))
             \<in> set (object_warnings fmt obj)"
        using m gt by (rule object_warnings_mesh_uv)
      with object_warnings_in_report [OF run obj] i show ?thesis by blast
    qed
    from link linkw eq mem inrep many show ?thesis by blast
  qed
  from a a' b show ?thesis by blast
qed

theorem uv_issue_and_warning_witness:
  "fst (validate_file (fixture_system (scene_fixture many_uv_scene)) exact_format new_validator
          [''models'', ''crate.blend''] []) =
     Inr (validate_scene exact_format [''models'', ''crate.blend''] many_uv_scene,
          \<lparr>validator_results =
             [validate_scene exact_format [''models'', ''crate.blend''] many_uv_scene],
           total_issues = 0\<rparr>) \<and>
   mesh_object ''SM_Crate'' (1, 1, 1) [''UVMap'', ''Lightmap'', ''Detail'']
     \<in> set (data_objects many_uv_scene) \<and>
   length (uv_layers (quad_mesh [''UVMap'', ''Lightmap'', ''Detail''])) > 2 \<and>
   issues (validate_scene exact_format [''models'', ''crate.blend''] many_uv_scene) = [] \<and>
   quoted ''SM_Crate'' @ '': 3 UV maps (UE5 typically uses 1-2)''
     \<in> set (warnings (validate_scene exact_format [''models'', ''crate.blend''] many_uv_scene)) \<and>
   mesh_object ''SM_Crate'' (1, 1, 1) [] \<in> set (data_objects no_uv_scene) \<and>
   uv_layers (quad_mesh []) = [] \<and>
   quoted ''SM_Crate'' @ '': Missing UV map (required for UE5)''
     \<in> set (issues (validate_scene exact_format [''models'', ''crate.blend''] no_uv_scene))"
proof -
  let ?p = "[''models'', ''crate.blend'']"
  let ?uvs = "[''UVMap'', ''Lightmap'', ''Detail'']"
  let ?many = "mesh_object ''SM_Crate'' (1, 1, 1) ?uvs"
  let ?none = "mesh_object ''SM_Crate'' (1, 1, 1) []"
  have run: "validate_file (fixture_system (scene_fixture d)) exact_format new_validator ?p [] =
     (Inr (validate_scene exact_format ?p d,
           \<lparr>validator_results = [validate_scene exact_format ?p d],
            total_issues = int (length (issues (validate_scene exact_format ?p d)))\<rparr>),
      [''read_homefile'', ''open_mainfile /models/crate.blend''])" for d
    using validate_file_fixture [of d exact_format ?p] by (simp add: str_path_def)
  have mem1: "?many \<in> set (data_objects many_uv_scene)"
    and mem2: "?none \<in> set (data_objects no_uv_scene)"
    by (simp_all add: many_uv_scene_def no_uv_scene_def)
  have h: "length (uv_layers (quad_mesh ?uvs)) > 2" and h0: "uv_layers (quad_mesh []) = []"
    by (simp_all add: mesh_object_simps)
  have m: "uv_count_warning ''SM_Crate'' 3 = quoted ''SM_Crate'' @ '': 3 UV maps (UE5 typically uses 1-2)''"
    by code_simp
  have sc: "scale_issues exact_format (mesh_object ''SM_Crate'' (1, 1, 1) uvs) = []" for uvs
    by (simp add: scale_issues_def mesh_object_simps components_def)
  have tot: "\<not> total_vertices (stats (validate_scene exact_format ?p many_uv_scene)) > MAX_VERTICES_LOD0"
    by code_simp
  have d1: "obj_data ?many = MESH (quad_mesh ?uvs)" and d2: "obj_data ?none = MESH (quad_mesh [])"
    by (simp_all add: mesh_object_simps)
  note inst = uv_issue_and_warning [OF run [of many_uv_scene], where report = "new_report []"]
  from inst have q: "\<forall>obj \<in> set (data_objects many_uv_scene). \<forall>mesh. obj_data obj = MESH mesh \<longrightarrow>
      (length (uv_layers mesh) > 2 \<longrightarrow>
         object_issues exact_format obj = scale_issues exact_format obj \<and>
         uv_count_warning (obj_name obj) (int (length (uv_layers mesh)))
           \<in> set (warnings (validate_scene exact_format ?p many_uv_scene)))"
    unfolding fixture_scene by blast
  from q mem1 d1 h have seg: "object_issues exact_format ?many = scale_issues exact_format ?many"
    and w: "uv_count_warning (obj_name ?many) (int (length (uv_layers (quad_mesh ?uvs))))
        \<in> set (warnings (validate_scene exact_format ?p many_uv_scene))"
    by blast+
  from inst have "issues (validate_scene exact_format ?p many_uv_scene) =
      concat (map (object_issues exact_format) (data_objects many_uv_scene)) @
      (if total_vertices (stats (validate_scene exact_format ?p many_uv_scene)) > MAX_VERTICES_LOD0
       then [total_vertices_issue (total_vertices (stats (validate_scene exact_format ?p many_uv_scene)))]
       else [])"
    unfolding fixture_scene by blast
  then have i: "issues (validate_scene exact_format ?p many_uv_scene) = []"
    using tot by (simp add: many_uv_scene_def seg sc)
  from w m have w': "quoted ''SM_Crate'' @ '': 3 UV maps (UE5 typically uses 1-2)''
     \<in> set (warnings (validate_scene exact_format ?p many_uv_scene))"
    by (simp add: mesh_object_simps)
  from uv_issue_and_warning [OF run [of no_uv_scene], where report = "new_report []"]
  have q0: "\<forall>obj \<in> set (data_objects no_uv_scene). \<forall>mesh. obj_data obj = MESH mesh \<longrightarrow>
      (uv_layers mesh = [] \<longrightarrow>
         missing_uv_issue (obj_name obj)
           \<in> set (issues (validate_scene exact_format ?p no_uv_scene)))"
    unfolding fixture_scene by blast
  from q0 mem2 d2 h0
  have "missing_uv_issue (obj_name ?none) \<in> set (issues (validate_scene exact_format ?p no_uv_scene))"
    by blast
  then have n: "quoted ''SM_Crate'' @ '': Missing UV map (required for UE5)''
     \<in> set (issues (validate_scene exact_format ?p no_uv_scene))"
    by (simp add: mesh_object_simps missing_uv_issue_def)
  have r: "fst (validate_file (fixture_system (scene_fixture many_uv_scene)) exact_format
        new_validator ?p []) =
     Inr (validate_scene exact_format ?p many_uv_scene,
          \<lparr>validator_results = [validate_scene exact_format ?p many_uv_scene],
           total_issues = 0\<rparr>)"
    by (simp add: run i)
  from r mem1 h i w' mem2 h0 n show ?thesis by blast
qed

section \<open>The classifier returns the first matching entry\<close>

lemma get_category_loop_first:
  "(\<exists>i<length tbl.
      (sublist (fst (tbl ! i)) n \<or> sublist (fst (tbl ! i)) d) \<and>
      (\<forall>j<i. \<not> (sublist (fst (tbl ! j)) n \<or> sublist (fst (tbl ! j)) d)) \<and>
      get_category_loop tbl n d = snd (tbl ! i)) \<or>
   ((\<forall>j<length tbl. \<not> (sublist (fst (tbl ! j)) n \<or> sublist (fst (tbl ! j)) d)) \<and>
      get_category_loop tbl n d = ''Misc'')"
proof (induction tbl)
  case Nil
  show ?case by simp
next
  case (Cons e tbl)
  obtain key category where e: "e = (key, category)" by (cases e)
  show ?case
  proof (cases "sublist key n \<or> sublist key d")
    case True
    then have "(sublist (fst ((e # tbl) ! 0)) n \<or> sublist (fst ((e # tbl) ! 0)) d) \<and>
      (\<forall>j<0. \<not> (sublist (fst ((e # tbl) ! j)) n \<or> sublist (fst ((e # tbl) ! j)) d)) \<and>
      get_category_loop (e # tbl) n d = snd ((e # tbl) ! 0)"
      by (simp add: e)
    then show ?thesis by (intro disjI1 exI [of _ 0]) simp
  next
    case False
    then have step: "get_category_loop (e # tbl) n d = get_category_loop tbl n d"
      by (simp add: e)
    from Cons.IH show ?thesis
    proof
      assume "\<exists>i<length tbl.
        (sublist (fst (tbl ! i)) n \<or> sublist (fst (tbl ! i)) d) \<and>
        (\<forall>j<i. \<not> (sublist (fst (tbl ! j)) n \<or> sublist (fst (tbl ! j)) d)) \<and>
        get_category_loop tbl n d = snd (tbl ! i)"
      then obtain i where i: "i < length tbl"
        "sublist (fst (tbl ! i)) n \<or> sublist (fst (tbl ! i)) d"
        "\<forall>j<i. \<not> (sublist (fst (tbl ! j)) n \<or> sublist (fst (tbl ! j)) d)"
        "get_category_loop tbl n d = snd (tbl ! i)"
        by blast
      have "\<forall>j<Suc i. \<not> (sublist (fst ((e # tbl) ! j)) n \<or> sublist (fst ((e # tbl) ! j)) d)"
      proof (intro allI impI)
        fix j assume "j < Suc i"
        then show "\<not> (sublist (fst ((e # tbl) ! j)) n \<or> sublist (fst ((e # tbl) ! j)) d)"
          using False i(3) by (cases j) (simp_all add: e)
      qed
      with i step have "Suc i < length (e # tbl) \<and>
        (sublist (fst ((e # tbl) ! Suc i)) n \<or> sublist (fst ((e # tbl) ! Suc i)) d) \<and>
        (\<forall>j<Suc i. \<not> (sublist (fst ((e # tbl) ! j)) n \<or> sublist (fst ((e # tbl) ! j)) d)) \<and>
        get_category_loop (e # tbl) n d = snd ((e # tbl) ! Suc i)"
        by simp
      then show ?thesis by blast
    next
      assume none: "(\<forall>j<length tbl. \<not> (sublist (fst (tbl ! j)) n \<or> sublist (fst (tbl ! j)) d)) \<and>
        get_category_loop tbl n d = ''Misc''"
      have "\<forall>j<length (e # tbl).
        \<not> (sublist (fst ((e # tbl) ! j)) n \<or> sublist (fst ((e # tbl) ! j)) d)"
      proof (intro allI impI)
        fix j assume "j < length (e # tbl)"
        then show "\<not> (sublist (fst ((e # tbl) ! j)) n \<or> sublist (fst ((e # tbl) ! j)) d)"
          using False none by (cases j) (simp_all add: e)
      qed
      with none step show ?thesis by simp
    qed
  qed
qed


lemma rfind_notin: "c \<notin> set xs \<Longrightarrow> rfind xs c = - 1"
  by (induction xs) (auto simp add: Let_def)

lemma rfind_last: "c \<notin> set ys \<Longrightarrow> rfind (xs @ c # ys) c = int (length xs)"
  by (induction xs) (simp_all add: Let_def rfind_notin)

lemma stem_cut:
  assumes nm: "name p = base @ ''.'' @ ext" and ext: "CHR ''.'' \<notin> set ext"
  shows "stem p = (if base = [] \<or> ext = [] then name p else base)"
proof -
  have r: "rfind (name p) (CHR ''.'') = int (length base)"
    using rfind_last [OF ext, of base] by (simp add: nm)
  show ?thesis
    unfolding stem_def Let_def r by (auto simp add: nm)
qed

lemma stem_whole: "CHR ''.'' \<notin> set (name p) \<Longrightarrow> stem p = name p"
  by (simp add: stem_def Let_def rfind_notin)

text \<open>
  C4. For every path, and whatever function \<open>str.lower\<close> is, \<open>get_category\<close> returns the display
  name of the first entry of the ordered table whose keyword is a substring of the lower-cased
  stem or of the lower-cased name of the parent directory: some index \<open>i\<close> of the table
  matches, no index below \<open>i\<close> matches, and the result is the display name at \<open>i\<close>. If no
  keyword matches the result is \<open>Misc\<close>. The function is total and has no error branch: one
  of the two cases always holds. The stem is the name without its extension: a name
  \<open>base.ext\<close>, where \<open>ext\<close> has no dot, has the stem \<open>base\<close> when neither \<open>base\<close> nor \<open>ext\<close> is
  empty and is its own stem otherwise, as is a name without a dot.
\<close>

theorem get_category_first_match:
  "((\<exists>i<length ASSET_CATEGORIES.
      (sublist (fst (ASSET_CATEGORIES ! i)) (lower (stem p)) \<or>
       sublist (fst (ASSET_CATEGORIES ! i)) (lower (name (parent p)))) \<and>
      (\<forall>j<i. \<not> (sublist (fst (ASSET_CATEGORIES ! j)) (lower (stem p)) \<or>
                 sublist (fst (ASSET_CATEGORIES ! j)) (lower (name (parent p))))) \<and>
      get_category lower p = snd (ASSET_CATEGORIES ! i)) \<or>
   ((\<forall>j<length ASSET_CATEGORIES.
        \<not> (sublist (fst (ASSET_CATEGORIES ! j)) (lower (stem p)) \<or>
           sublist (fst (ASSET_CATEGORIES ! j)) (lower (name (parent p))))) \<and>
      get_category lower p = ''Misc'')) \<and>
   (name p = base @ ''.'' @ ext \<and> CHR ''.'' \<notin> set ext \<longrightarrow>
      stem p = (if base = [] \<or> ext = [] then name p else base)) \<and>
   (CHR ''.'' \<notin> set (name p) \<longrightarrow> stem p = name p)"
proof -
  have "(\<exists>i<length ASSET_CATEGORIES.
      (sublist (fst (ASSET_CATEGORIES ! i)) (lower (stem p)) \<or>
       sublist (fst (ASSET_CATEGORIES ! i)) (lower (name (parent p)))) \<and>
      (\<forall>j<i. \<not> (sublist (fst (ASSET_CATEGORIES ! j)) (lower (stem p)) \<or>
                 sublist (fst (ASSET_CATEGORIES ! j)) (lower (name (parent p))))) \<and>
      get_category lower p = snd (ASSET_CATEGORIES ! i)) \<or>
   ((\<forall>j<length ASSET_CATEGORIES.
        \<not> (sublist (fst (ASSET_CATEGORIES ! j)) (lower (stem p)) \<or>
           sublist (fst (ASSET_CATEGORIES ! j)) (lower (name (parent p))))) \<and>
      get_category lower p = ''Misc'')"
    unfolding get_category_def Let_def by (rule get_category_loop_first)
  moreover have "name p = base @ ''.'' @ ext \<and> CHR ''.'' \<notin> set ext \<longrightarrow>
      stem p = (if base = [] \<or> ext = [] then name p else base)"
    using stem_cut [of p base ext] by blast
  moreover have "CHR ''.'' \<notin> set (name p) \<longrightarrow> stem p = name p"
    using stem_whole [of p] by blast
  ultimately show ?thesis by blast
qed

theorem get_category_first_match_witness:
  "get_category example_lower [''models'', ''weapons'', ''Characters_Sword.blend''] = ''Characters'' \<and>
   stem [''models'', ''weapons'', ''Characters_Sword.blend''] = ''Characters_Sword'' \<and>
   sublist ''characters'' (example_lower ''Characters_Sword'') \<and>
   sublist ''weapons''
     (example_lower (name (parent [''models'', ''weapons'', ''Characters_Sword.blend'']))) \<and>
   stem [''models'', ''shop.props''] = ''shop'' \<and>
   get_category example_lower [''models'', ''shop.props''] = ''Misc'' \<and>
   stem [''models'', ''README''] = ''README'' \<and>
   stem [''models'', ''.props''] = ''.props'' \<and>
   example_lower ([CHR ''U'', CHR 0xC4, CHR 0xB0] @ ''_panel'') =
     [CHR ''u'', CHR ''i'', CHR 0xCC, CHR 0x87] @ ''_panel'' \<and>
   get_category example_lower [''models'', [CHR ''U'', CHR 0xC4, CHR 0xB0] @ ''_panel.blend''] =
     ''UI''"
proof -
  let ?p = "[''models'', ''weapons'', ''Characters_Sword.blend'']"
  let ?q = "[''models'', ''shop.props'']"
  let ?u = "[''models'', [CHR ''U'', CHR 0xC4, CHR 0xB0] @ ''_panel.blend'']"
  note p = get_category_first_match [of example_lower ?p "''Characters_Sword''" "''blend''"]
  note q = get_category_first_match [of example_lower ?q "''shop''" "''props''"]
  note r = get_category_first_match [of example_lower "[''models'', ''README'']"]
  note h = get_category_first_match [of example_lower "[''models'', ''.props'']" "[]" "''props''"]
  have sp: "stem ?p = ''Characters_Sword''"
    using p by (simp add: name_def)
  have sq: "stem ?q = ''shop''"
    using q by (simp add: name_def)
  have sr: "stem [''models'', ''README''] = ''README''"
    using r by (simp add: name_def)
  have sh: "stem [''models'', ''.props''] = ''.props''"
    using h by (simp add: name_def)
  have first: "sublist (fst (ASSET_CATEGORIES ! 0)) (example_lower (stem ?p))"
    unfolding sp by code_simp
  have first': "sublist ''characters'' (example_lower ''Characters_Sword'')"
    by code_simp
  have second: "sublist ''weapons'' (example_lower (name (parent ?p)))"
    by code_simp
  have tbl: "0 < length ASSET_CATEGORIES" "snd (ASSET_CATEGORIES ! 0) = ''Characters''"
    by (simp_all add: ASSET_CATEGORIES_def)
  from p first tbl(1)
  have "get_category example_lower ?p = snd (ASSET_CATEGORIES ! 0)"
    by (metis gr_zeroI)
  then have cp: "get_category example_lower ?p = ''Characters''"
    by (simp add: tbl)
  have none: "\<not> (sublist (fst (ASSET_CATEGORIES ! j)) (example_lower (stem ?q)) \<or>
       sublist (fst (ASSET_CATEGORIES ! j)) (example_lower (name (parent ?q))))"
    if "j < length ASSET_CATEGORIES" for j
  proof -
    from that have "j \<in> {0, 1, 2, 3, 4, 5, 6, 7}"
      by (auto simp add: ASSET_CATEGORIES_def)
    then show ?thesis
      unfolding sq by (elim insertE emptyE; hypsubst; code_simp)
  qed
  from q none have cq: "get_category example_lower ?q = ''Misc''"
    by blast
  have lo: "example_lower ([CHR ''U'', CHR 0xC4, CHR 0xB0] @ ''_panel'') =
     [CHR ''u'', CHR ''i'', CHR 0xCC, CHR 0x87] @ ''_panel''"
    by code_simp
  have cu: "get_category example_lower ?u = ''UI''"
    by code_simp
  from cp sp first' second sq cq sr sh lo cu show ?thesis by blast
qed

section \<open>The accounts of the batch loop\<close>

lemma world_called: "world (called c st) = world st"
  by (simp add: called_def)

lemma main_loop_raise:
  "fbx_is_newer sys p (export_path_of sys SD p) (world st) = Inl e \<Longrightarrow>
   main_loop sys SD (p # rest) res st = (Inl e, called (Get_category p) st)"
  by (simp add: Let_def world_called)

lemma main_loop_skip:
  "fbx_is_newer sys p (export_path_of sys SD p) (world st) = Inr True \<Longrightarrow>
   main_loop sys SD (p # rest) res st =
     main_loop sys SD rest (res\<lparr>skipped := skipped res + 1\<rparr>) (called (Get_category p) st)"
  by (simp add: Let_def world_called)

lemma main_loop_export:
  "fbx_is_newer sys p (export_path_of sys SD p) (world st) = Inr False \<Longrightarrow>
   fst (export_blend_to_fbx sys p (export_path_of sys SD p) (called (Get_category p) st)) \<Longrightarrow>
   main_loop sys SD (p # rest) res st =
     main_loop sys SD rest
       (res\<lparr>exported := exported res + 1,
            files := files res @ [str_path (export_path_of sys SD p)]\<rparr>)
       (snd (export_blend_to_fbx sys p (export_path_of sys SD p) (called (Get_category p) st)))"
  by (simp add: Let_def world_called)

lemma main_loop_fail:
  "fbx_is_newer sys p (export_path_of sys SD p) (world st) = Inr False \<Longrightarrow>
   \<not> fst (export_blend_to_fbx sys p (export_path_of sys SD p) (called (Get_category p) st)) \<Longrightarrow>
   main_loop sys SD (p # rest) res st =
     main_loop sys SD rest (res\<lparr>failed := failed res + 1\<rparr>)
       (snd (export_blend_to_fbx sys p (export_path_of sys SD p) (called (Get_category p) st)))"
  by (simp add: Let_def world_called)

lemma main_loop_cases:
  obtains (raise) e where "fbx_is_newer sys p (export_path_of sys SD p) (world st) = Inl e"
  | (skip) "fbx_is_newer sys p (export_path_of sys SD p) (world st) = Inr True"
  | (ok) "fbx_is_newer sys p (export_path_of sys SD p) (world st) = Inr False"
      "fst (export_blend_to_fbx sys p (export_path_of sys SD p) (called (Get_category p) st))"
  | (fail) "fbx_is_newer sys p (export_path_of sys SD p) (world st) = Inr False"
      "\<not> fst (export_blend_to_fbx sys p (export_path_of sys SD p) (called (Get_category p) st))"
proof (cases "fbx_is_newer sys p (export_path_of sys SD p) (world st)")
  case (Inl e)
  then show ?thesis by (rule raise)
next
  case (Inr newer)
  with skip ok fail show ?thesis
    by (cases newer;
        cases "fst (export_blend_to_fbx sys p (export_path_of sys SD p) (called (Get_category p) st))")
      simp_all
qed

lemma main_loop_accounts:
  "main_loop sys SD fs res st = (Inr res', st') \<Longrightarrow>
     exported res' + failed res' + skipped res' =
       exported res + failed res + skipped res + int (length fs) \<and>
     int (length (files res')) - exported res' = int (length (files res)) - exported res"
proof (induction fs arbitrary: res st)
  case Nil
  then show ?case by simp
next
  case (Cons p fs)
  let ?ep = "export_path_of sys SD p"
  let ?x = "export_blend_to_fbx sys p ?ep (called (Get_category p) st)"
  show ?case
  proof (cases rule: main_loop_cases [of sys p SD st])
    case (raise e)
    from Cons.prems show ?thesis
      by (simp add: main_loop_raise [OF raise] del: main_loop.simps)
  next
    case skip
    from Cons.prems have "main_loop sys SD fs (res\<lparr>skipped := skipped res + 1\<rparr>)
        (called (Get_category p) st) = (Inr res', st')"
      by (simp add: main_loop_skip [OF skip] del: main_loop.simps)
    from Cons.IH [OF this] show ?thesis by simp
  next
    case ok
    from Cons.prems have "main_loop sys SD fs
        (res\<lparr>exported := exported res + 1, files := files res @ [str_path ?ep]\<rparr>) (snd ?x) =
        (Inr res', st')"
      by (simp add: main_loop_export [OF ok] del: main_loop.simps)
    from Cons.IH [OF this] show ?thesis by simp
  next
    case fail
    from Cons.prems have "main_loop sys SD fs (res\<lparr>failed := failed res + 1\<rparr>) (snd ?x) =
        (Inr res', st')"
      by (simp add: main_loop_fail [OF fail] del: main_loop.simps)
    from Cons.IH [OF this] show ?thesis by simp
  qed
qed

text \<open>A run of \<open>main\<close> that writes its report went through every stage.\<close>

lemma main_report:
  assumes run: "main sys SD st = (Inr (Some rep), st')"
  obtains st1 fs res st2 where
    "ensure_dir sys (EXPORT_DIR SD) st = (None, st1)"
    "rglob sys (MODELS_DIR SD) ''*.blend'' (world st1) = Inr fs"
    "fs \<noteq> []"
    "main_loop sys SD fs \<lparr>exported = 0, failed = 0, skipped = 0, files = []\<rparr> st1 = (Inr res, st2)"
    "rep = \<lparr>exported = exported res, failed = failed res, skipped = skipped res,
            files = files res, timestamp = now_isoformat sys (world st2),
            total_files = int (length fs)\<rparr>"
    "effect (json_dump sys (joinpath (EXPORT_DIR SD) ''export_report.json'') rep) st2 = (None, st')"
proof -
  obtain e1 st1 where a: "ensure_dir sys (EXPORT_DIR SD) st = (e1, st1)"
    by (cases "ensure_dir sys (EXPORT_DIR SD) st")
  have e1: "e1 = None"
    using run a by (cases e1) (simp_all add: main_def)
  obtain fs where b: "rglob sys (MODELS_DIR SD) ''*.blend'' (world st1) = Inr fs"
    using run a e1 by (cases "rglob sys (MODELS_DIR SD) ''*.blend'' (world st1)")
      (simp_all add: main_def)
  have ne: "fs \<noteq> []"
    using run a e1 b by (auto simp add: main_def)
  obtain r st2 where c:
    "main_loop sys SD fs \<lparr>exported = 0, failed = 0, skipped = 0, files = []\<rparr> st1 = (r, st2)"
    by (cases "main_loop sys SD fs \<lparr>exported = 0, failed = 0, skipped = 0, files = []\<rparr> st1")
  obtain res where r: "r = Inr res"
    using run a e1 b ne c by (cases r) (simp_all add: main_def)
  let ?rep = "\<lparr>exported = exported res, failed = failed res, skipped = skipped res,
            files = files res, timestamp = now_isoformat sys (world st2),
            total_files = int (length fs)\<rparr>"
  obtain e3 st3 where d:
    "effect (json_dump sys (joinpath (EXPORT_DIR SD) ''export_report.json'') ?rep) st2 = (e3, st3)"
    by (cases "effect (json_dump sys (joinpath (EXPORT_DIR SD) ''export_report.json'') ?rep) st2")
  have e3: "e3 = None \<and> rep = ?rep \<and> st' = st3"
    using run a e1 b ne c r d by (cases e3) (simp_all add: main_def Let_def)
  from a e1 b ne c r d e3 that show ?thesis by blast
qed

text \<open>
  C10. Whenever a batch run writes its summary, the exported, failed and skipped counts add
  up to the number of files found, and the list of output paths is as long as the exported
  count.
\<close>

theorem summary_counts_add_up:
  "main sys SCRIPT_DIR st = (Inr (Some rep), st') \<Longrightarrow>
     exported rep + failed rep + skipped rep = total_files rep \<and>
     int (length (files rep)) = exported rep"
proof -
  assume run: "main sys SCRIPT_DIR st = (Inr (Some rep), st')"
  from run obtain st1 fs res st2 where
    loop: "main_loop sys SCRIPT_DIR fs \<lparr>exported = 0, failed = 0, skipped = 0, files = []\<rparr> st1 =
       (Inr res, st2)"
    and rep: "rep = \<lparr>exported = exported res, failed = failed res, skipped = skipped res,
            files = files res, timestamp = now_isoformat sys (world st2),
            total_files = int (length fs)\<rparr>"
    by (rule main_report)
  from main_loop_accounts [OF loop] show ?thesis
    by (simp add: rep)
qed

section \<open>The example system, step by step\<close>

lemma fixture_ops:
  "read_homefile (fixture_system fx) w = (None, w @ [''read_homefile''])"
  "open_mainfile (fixture_system fx) p w =
     (if p \<in> set (fx_unreadable fx) then Some (PyException ''cannot read file'') else None,
      w @ [''open_mainfile '' @ p])"
  "export_scene_fbx (fixture_system fx) p w =
     (if p \<in> set (fx_rejected fx) then Some (PyException ''export failed'') else None,
      w @ [''export_scene.fbx '' @ p])"
  "mkdir (fixture_system fx) q w = (None, w @ [''mkdir '' @ str_path q])"
  "json_dump (fixture_system fx) q r w = (None, w @ [''json.dump '' @ str_path q])"
  "bpy_data_of (fixture_system fx) w = fx_scene fx"
  "rglob (fixture_system fx) d pat w = Inr (fx_sources fx)"
  "path_exists (fixture_system fx) q w = Inr (map_of (fx_mtimes fx) q \<noteq> None)"
  "st_mtime (fixture_system fx) q w =
     (case map_of (fx_mtimes fx) q of
        Some t \<Rightarrow> Inr t
      | None \<Rightarrow> Inl (PyException ''FileNotFoundError''))"
  "now_isoformat (fixture_system fx) w = ''2024-01-01T00:00:00''"
  "str_lower (fixture_system fx) = example_lower"
  by (simp_all add: fixture_system_def)

lemma export_blend_to_fbx_fixture:
  "export_blend_to_fbx (fixture_system fx) bp ep st =
     (if str_path bp \<in> set (fx_unreadable fx)
      then (False, \<lparr>world = world st @ [''read_homefile'', ''open_mainfile '' @ str_path bp],
                    calls = calls st @ [Export_blend_to_fbx bp ep, Clean_scene]\<rparr>)
      else (str_path ep \<notin> set (fx_rejected fx),
            \<lparr>world = world st @ [''read_homefile'', ''open_mainfile '' @ str_path bp,
                                  ''mkdir '' @ str_path (parent ep),
                                  ''export_scene.fbx '' @ str_path ep],
             calls = calls st @ [Export_blend_to_fbx bp ep, Clean_scene, Ensure_dir (parent ep)]\<rparr>))"
  by (simp add: export_blend_to_fbx_def clean_scene_def ensure_dir_def effect_def called_def
      fixture_ops)

lemma example_dirs:
  "EXPORT_DIR script_dir = export_dir"
  "MODELS_DIR script_dir = [''proj'', ''blender'', ''models'']"
  by (simp_all add: EXPORT_DIR_def MODELS_DIR_def PROJECT_ROOT_def joinpath_def parent_def
      script_dir_def export_dir_def)

lemma example_categories:
  "get_category example_lower sword_blend = ''Weapons''"
  "get_category example_lower hero_blend = ''Characters''"
  "get_category example_lower blob_blend = ''Misc''"
  by code_simp+

lemma example_stems:
  "stem sword_blend = ''sword_01''"
  "stem hero_blend = ''hero''"
  "stem blob_blend = ''blob''"
  by code_simp+

lemma example_export_paths:
  "export_path_of (fixture_system fx) script_dir sword_blend = sword_fbx"
  "export_path_of (fixture_system fx) script_dir hero_blend = hero_fbx"
  "export_path_of (fixture_system fx) script_dir blob_blend = blob_fbx"
  by (simp_all add: export_path_of_def example_dirs example_categories example_stems joinpath_def
      sword_fbx_def hero_fbx_def blob_fbx_def fixture_ops)

lemma example_strs:
  "str_path sword_blend = ''/proj/blender/models/weapons/sword_01.blend''"
  "str_path hero_blend = ''/proj/blender/models/characters/hero.blend''"
  "str_path blob_blend = ''/proj/blender/models/blob.blend''"
  "str_path sword_fbx = ''/proj/ue5-client/Content/Models/Imported/Weapons/sword_01.fbx''"
  "str_path hero_fbx = ''/proj/ue5-client/Content/Models/Imported/Characters/hero.fbx''"
  "str_path blob_fbx = ''/proj/ue5-client/Content/Models/Imported/Misc/blob.fbx''"
  "str_path export_dir = ''/proj/ue5-client/Content/Models/Imported''"
  by (simp_all add: str_path_def sword_blend_def hero_blend_def blob_blend_def sword_fbx_def
      hero_fbx_def blob_fbx_def export_dir_def)

lemma example_paths_differ:
  "sword_fbx \<noteq> sword_blend" "sword_fbx \<noteq> hero_blend" "sword_fbx \<noteq> blob_blend"
  "hero_fbx \<noteq> sword_blend" "hero_fbx \<noteq> hero_blend" "hero_fbx \<noteq> blob_blend"
  "hero_fbx \<noteq> sword_fbx"
  "blob_fbx \<noteq> sword_blend" "blob_fbx \<noteq> hero_blend" "blob_fbx \<noteq> blob_blend"
  "blob_fbx \<noteq> sword_fbx"
  "hero_blend \<noteq> sword_blend" "blob_blend \<noteq> sword_blend" "blob_blend \<noteq> hero_blend"
  by (simp_all add: sword_blend_def hero_blend_def blob_blend_def sword_fbx_def
      hero_fbx_def blob_fbx_def export_dir_def)

lemma mixed_gate:
  "fbx_is_newer (fixture_system mixed_fixture) sword_blend sword_fbx w = Inr True"
  "fbx_is_newer (fixture_system mixed_fixture) hero_blend hero_fbx w = Inr False"
  "fbx_is_newer (fixture_system mixed_fixture) blob_blend blob_fbx w = Inr False"
  by (simp_all add: fbx_is_newer_def fixture_ops mixed_fixture_def example_paths_differ)

lemma mixed_exports:
  "fst (export_blend_to_fbx (fixture_system mixed_fixture) hero_blend hero_fbx st) = False"
  "fst (export_blend_to_fbx (fixture_system mixed_fixture) blob_blend blob_fbx st) = True"
  by (simp_all add: export_blend_to_fbx_fixture mixed_fixture_def example_strs)

lemma mixed_run:
  "fst (main (fixture_system mixed_fixture) script_dir start) =
     Inr (Some \<lparr>exported = 1, failed = 1, skipped = 1,
           files = [''/proj/ue5-client/Content/Models/Imported/Misc/blob.fbx''],
           timestamp = ''2024-01-01T00:00:00'', total_files = 3\<rparr>)"
proof -
  have src: "fx_sources mixed_fixture = [sword_blend, hero_blend, blob_blend]"
    by (simp add: mixed_fixture_def)
  show ?thesis
    by (simp add: main_def ensure_dir_def effect_def called_def fixture_ops src Let_def
        example_export_paths mixed_gate mixed_exports example_strs split: prod.splits)
qed

theorem summary_counts_add_up_witness:
  "fst (main (fixture_system mixed_fixture) script_dir start) =
     Inr (Some \<lparr>exported = 1, failed = 1, skipped = 1,
           files = [''/proj/ue5-client/Content/Models/Imported/Misc/blob.fbx''],
           timestamp = ''2024-01-01T00:00:00'', total_files = 3\<rparr>) \<and>
   exported \<lparr>exported = 1, failed = 1, skipped = 1,
           files = [''/proj/ue5-client/Content/Models/Imported/Misc/blob.fbx''],
           timestamp = ''2024-01-01T00:00:00'', total_files = 3\<rparr> +
   failed \<lparr>exported = 1, failed = 1, skipped = 1,
           files = [''/proj/ue5-client/Content/Models/Imported/Misc/blob.fbx''],
           timestamp = ''2024-01-01T00:00:00'', total_files = 3\<rparr> +
   skipped \<lparr>exported = 1, failed = 1, skipped = 1,
           files = [''/proj/ue5-client/Content/Models/Imported/Misc/blob.fbx''],
           timestamp = ''2024-01-01T00:00:00'', total_files = 3\<rparr> = (3::int)"
proof -
  let ?rep = "\<lparr>exported = 1, failed = 1, skipped = 1,
           files = [''/proj/ue5-client/Content/Models/Imported/Misc/blob.fbx''],
           timestamp = ''2024-01-01T00:00:00'', total_files = 3\<rparr>"
  let ?run = "main (fixture_system mixed_fixture) script_dir start"
  have "?run = (Inr (Some ?rep), snd ?run)"
    using mixed_run by (simp add: prod_eq_iff)
  from summary_counts_add_up [OF this] mixed_run show ?thesis by simp
qed

section \<open>The staleness gate\<close>

lemma fbx_is_newer_false:
  "(fbx_is_newer sys blend_path export_path w = Inr False) =
      (path_exists sys export_path w = Inr False \<or>
       path_exists sys export_path w = Inr True \<and>
       (\<exists>blend_mtime fbx_mtime. st_mtime sys blend_path w = Inr blend_mtime \<and>
          st_mtime sys export_path w = Inr fbx_mtime \<and> blend_mtime \<ge> fbx_mtime))"
  by (auto simp add: fbx_is_newer_def split: sum.splits if_splits)

lemma fbx_is_newer_true:
  "(fbx_is_newer sys blend_path export_path w = Inr True) =
      (path_exists sys export_path w = Inr True \<and>
       (\<exists>blend_mtime fbx_mtime. st_mtime sys blend_path w = Inr blend_mtime \<and>
          st_mtime sys export_path w = Inr fbx_mtime \<and> fbx_mtime > blend_mtime))"
  by (auto simp add: fbx_is_newer_def split: sum.splits if_splits)

lemma fbx_is_newer_raises:
  "(fbx_is_newer sys blend_path export_path w = Inl e) =
      (path_exists sys export_path w = Inl e \<or>
       path_exists sys export_path w = Inr True \<and>
       (st_mtime sys blend_path w = Inl e \<or>
        (\<exists>blend_mtime. st_mtime sys blend_path w = Inr blend_mtime) \<and>
        st_mtime sys export_path w = Inl e))"
  by (auto simp add: fbx_is_newer_def split: sum.splits if_splits)

text \<open>
  C2, as the code has it. The gate lets the loop go on to export a file exactly when the
  output path does not exist, or it exists and the source is at least as new as the output;
  it makes the loop skip exactly when the output exists and is strictly newer; it raises
  exactly when \<open>exists()\<close> raises or, the output existing, one of the two \<open>stat()\<close> calls
  raises. With equal modification times the file is not skipped. When the gate says skip,
  the loop adds one to \<open>skipped\<close> and goes to the next file in the same world: no operation
  of Blender or of the file system is performed for the file. When the gate says export,
  the loop calls \<open>export_blend_to_fbx\<close> and counts the file as exported or as failed
  according to its result. When the gate raises, the loop ends with the exception.
\<close>

theorem staleness_gate:
  "((fbx_is_newer sys blend_path export_path w = Inr False) =
      (path_exists sys export_path w = Inr False \<or>
       path_exists sys export_path w = Inr True \<and>
       (\<exists>blend_mtime fbx_mtime. st_mtime sys blend_path w = Inr blend_mtime \<and>
          st_mtime sys export_path w = Inr fbx_mtime \<and> blend_mtime \<ge> fbx_mtime))) \<and>
   ((fbx_is_newer sys blend_path export_path w = Inr True) =
      (path_exists sys export_path w = Inr True \<and>
       (\<exists>blend_mtime fbx_mtime. st_mtime sys blend_path w = Inr blend_mtime \<and>
          st_mtime sys export_path w = Inr fbx_mtime \<and> fbx_mtime > blend_mtime))) \<and>
   ((fbx_is_newer sys blend_path export_path w = Inl e) =
      (path_exists sys export_path w = Inl e \<or>
       path_exists sys export_path w = Inr True \<and>
       (st_mtime sys blend_path w = Inl e \<or>
        (\<exists>blend_mtime. st_mtime sys blend_path w = Inr blend_mtime) \<and>
        st_mtime sys export_path w = Inl e))) \<and>
   (path_exists sys export_path w = Inr True \<and> st_mtime sys blend_path w = Inr t \<and>
    st_mtime sys export_path w = Inr t \<longrightarrow>
      fbx_is_newer sys blend_path export_path w = Inr False) \<and>
   (fbx_is_newer sys blend_path (export_path_of sys SCRIPT_DIR blend_path) (world st) = Inr True \<longrightarrow>
      main_loop sys SCRIPT_DIR (blend_path # rest) results st =
        main_loop sys SCRIPT_DIR rest (results\<lparr>skipped := skipped results + 1\<rparr>)
          (called (Get_category blend_path) st) \<and>
      world (called (Get_category blend_path) st) = world st) \<and>
   (fbx_is_newer sys blend_path (export_path_of sys SCRIPT_DIR blend_path) (world st) = Inr False \<longrightarrow>
      main_loop sys SCRIPT_DIR (blend_path # rest) results st =
        main_loop sys SCRIPT_DIR rest
          (if fst (export_blend_to_fbx sys blend_path (export_path_of sys SCRIPT_DIR blend_path)
                     (called (Get_category blend_path) st))
           then results\<lparr>exported := exported results + 1,
                        files := files results @
                          [str_path (export_path_of sys SCRIPT_DIR blend_path)]\<rparr>
           else results\<lparr>failed := failed results + 1\<rparr>)
          (snd (export_blend_to_fbx sys blend_path (export_path_of sys SCRIPT_DIR blend_path)
                  (called (Get_category blend_path) st)))) \<and>
   (fbx_is_newer sys blend_path (export_path_of sys SCRIPT_DIR blend_path) (world st) = Inl e \<longrightarrow>
      main_loop sys SCRIPT_DIR (blend_path # rest) results st =
        (Inl e, called (Get_category blend_path) st))"
proof -
  let ?ep = "export_path_of sys SCRIPT_DIR blend_path"
  let ?x = "export_blend_to_fbx sys blend_path ?ep (called (Get_category blend_path) st)"
  have tie: "path_exists sys export_path w = Inr True \<and> st_mtime sys blend_path w = Inr t \<and>
    st_mtime sys export_path w = Inr t \<longrightarrow>
      fbx_is_newer sys blend_path export_path w = Inr False"
    by (simp add: fbx_is_newer_def)
  have skip: "fbx_is_newer sys blend_path ?ep (world st) = Inr True \<longrightarrow>
      main_loop sys SCRIPT_DIR (blend_path # rest) results st =
        main_loop sys SCRIPT_DIR rest (results\<lparr>skipped := skipped results + 1\<rparr>)
          (called (Get_category blend_path) st) \<and>
      world (called (Get_category blend_path) st) = world st"
    using main_loop_skip [of sys blend_path SCRIPT_DIR st rest results]
    by (simp add: world_called del: main_loop.simps)
  have export: "fbx_is_newer sys blend_path ?ep (world st) = Inr False \<longrightarrow>
      main_loop sys SCRIPT_DIR (blend_path # rest) results st =
        main_loop sys SCRIPT_DIR rest
          (if fst ?x
           then results\<lparr>exported := exported results + 1,
                        files := files results @ [str_path ?ep]\<rparr>
           else results\<lparr>failed := failed results + 1\<rparr>)
          (snd ?x)"
    using main_loop_export [of sys blend_path SCRIPT_DIR st rest results]
      main_loop_fail [of sys blend_path SCRIPT_DIR st rest results]
    by (cases "fst ?x") (simp_all del: main_loop.simps)
  have raise: "fbx_is_newer sys blend_path ?ep (world st) = Inl e \<longrightarrow>
      main_loop sys SCRIPT_DIR (blend_path # rest) results st =
        (Inl e, called (Get_category blend_path) st)"
    using main_loop_raise [of sys blend_path SCRIPT_DIR st e rest results] by blast
  from fbx_is_newer_false [of sys blend_path export_path w]
    fbx_is_newer_true [of sys blend_path export_path w]
    fbx_is_newer_raises [of sys blend_path export_path w e]
    tie skip export raise
  show ?thesis by blast
qed

lemma tie_gate:
  "path_exists (fixture_system tie_fixture) sword_fbx w = Inr True"
  "st_mtime (fixture_system tie_fixture) sword_blend w = Inr 100"
  "st_mtime (fixture_system tie_fixture) sword_fbx w = Inr 100"
  by (simp_all add: fixture_ops tie_fixture_def example_paths_differ)

lemma tie_export:
  "export_blend_to_fbx (fixture_system tie_fixture) sword_blend sword_fbx st =
     (True, \<lparr>world = world st @ [''read_homefile'', ''open_mainfile '' @ str_path sword_blend,
                                  ''mkdir '' @ str_path (parent sword_fbx),
                                  ''export_scene.fbx '' @ str_path sword_fbx],
             calls = calls st @ [Export_blend_to_fbx sword_blend sword_fbx, Clean_scene,
                                 Ensure_dir (parent sword_fbx)]\<rparr>)"
  by (simp add: export_blend_to_fbx_fixture tie_fixture_def)

lemma tie_run:
  "fst (main (fixture_system tie_fixture) script_dir start) =
     Inr (Some \<lparr>exported = 1, failed = 0, skipped = 0,
           files = [''/proj/ue5-client/Content/Models/Imported/Weapons/sword_01.fbx''],
           timestamp = ''2024-01-01T00:00:00'', total_files = 1\<rparr>)"
proof -
  have src: "fx_sources tie_fixture = [sword_blend]"
    by (simp add: tie_fixture_def)
  have gate: "fbx_is_newer (fixture_system tie_fixture) sword_blend sword_fbx w = Inr False" for w
    by (simp add: fbx_is_newer_def tie_gate)
  show ?thesis
    by (simp add: main_def ensure_dir_def effect_def called_def fixture_ops src Let_def
        example_export_paths gate tie_export example_strs split: prod.splits)
qed

lemma dangling_gate:
  "path_exists (fixture_system dangling_fixture) sword_fbx w = Inr True"
  "st_mtime (fixture_system dangling_fixture) sword_blend w =
     Inl (PyException ''FileNotFoundError'')"
  by (simp_all add: fixture_ops dangling_fixture_def example_paths_differ
      example_paths_differ [THEN not_sym])

theorem staleness_gate_witness:
  "fbx_is_newer (fixture_system mixed_fixture) sword_blend
     (export_path_of (fixture_system mixed_fixture) script_dir sword_blend) (world start) =
     Inr True \<and>
   main_loop (fixture_system mixed_fixture) script_dir [sword_blend]
       \<lparr>exported = 0, failed = 0, skipped = 0, files = []\<rparr> start =
     (Inr \<lparr>exported = 0, failed = 0, skipped = 1, files = []\<rparr>,
      called (Get_category sword_blend) start) \<and>
   world (called (Get_category sword_blend) start) = world start \<and>
   path_exists (fixture_system tie_fixture) sword_fbx [] = Inr True \<and>
   st_mtime (fixture_system tie_fixture) sword_blend [] = Inr 100 \<and>
   st_mtime (fixture_system tie_fixture) sword_fbx [] = Inr 100 \<and>
   fbx_is_newer (fixture_system tie_fixture) sword_blend sword_fbx [] = Inr False \<and>
   fst (main_loop (fixture_system tie_fixture) script_dir [sword_blend]
       \<lparr>exported = 0, failed = 0, skipped = 0, files = []\<rparr> start) =
     Inr \<lparr>exported = 1, failed = 0, skipped = 0,
          files = [''/proj/ue5-client/Content/Models/Imported/Weapons/sword_01.fbx'']\<rparr> \<and>
   path_exists (fixture_system dangling_fixture) sword_fbx [] = Inr True \<and>
   st_mtime (fixture_system dangling_fixture) sword_blend [] =
     Inl (PyException ''FileNotFoundError'') \<and>
   main_loop (fixture_system dangling_fixture) script_dir [sword_blend]
       \<lparr>exported = 0, failed = 0, skipped = 0, files = []\<rparr> start =
     (Inl (PyException ''FileNotFoundError''), called (Get_category sword_blend) start)"
proof -
  let ?r0 = "\<lparr>exported = 0, failed = 0, skipped = 0, files = []\<rparr>"
  let ?mixed = "fixture_system mixed_fixture"
  let ?tie = "fixture_system tie_fixture"
  let ?dang = "fixture_system dangling_fixture"
  let ?e = "PyException ''FileNotFoundError''"
  have w0: "world start = []"
    by (simp add: start_def)
  have g: "fbx_is_newer ?mixed sword_blend (export_path_of ?mixed script_dir sword_blend)
      (world start) = Inr True"
    by (simp add: example_export_paths mixed_gate)
  note m = staleness_gate [of ?mixed sword_blend sword_fbx "[]" ?e 100 script_dir start "[]" ?r0]
  from m g have step: "main_loop ?mixed script_dir [sword_blend] ?r0 start =
      main_loop ?mixed script_dir [] (?r0\<lparr>skipped := skipped ?r0 + 1\<rparr>)
        (called (Get_category sword_blend) start)"
    and same: "world (called (Get_category sword_blend) start) = world start"
    by blast+
  note t = staleness_gate [of ?tie sword_blend sword_fbx "[]" ?e 100 script_dir start "[]" ?r0]
  from t tie_gate [of "[]"]
  have n: "fbx_is_newer ?tie sword_blend sword_fbx [] = Inr False"
    by blast
  then have n': "fbx_is_newer ?tie sword_blend (export_path_of ?tie script_dir sword_blend)
      (world start) = Inr False"
    by (simp add: example_export_paths w0)
  from t n' have "main_loop ?tie script_dir [sword_blend] ?r0 start =
      main_loop ?tie script_dir []
        (if fst (export_blend_to_fbx ?tie sword_blend (export_path_of ?tie script_dir sword_blend)
                   (called (Get_category sword_blend) start))
         then ?r0\<lparr>exported := exported ?r0 + 1,
                   files := files ?r0 @ [str_path (export_path_of ?tie script_dir sword_blend)]\<rparr>
         else ?r0\<lparr>failed := failed ?r0 + 1\<rparr>)
        (snd (export_blend_to_fbx ?tie sword_blend (export_path_of ?tie script_dir sword_blend)
                (called (Get_category sword_blend) start)))"
    by blast
  then have x: "fst (main_loop ?tie script_dir [sword_blend] ?r0 start) =
     Inr \<lparr>exported = 1, failed = 0, skipped = 0,
          files = [''/proj/ue5-client/Content/Models/Imported/Weapons/sword_01.fbx'']\<rparr>"
    by (simp add: example_export_paths tie_export example_strs del: main_loop.simps(2))
  note d = staleness_gate [of ?dang sword_blend
      "export_path_of ?dang script_dir sword_blend" "world start" ?e 100 script_dir start "[]" ?r0]
  have "fbx_is_newer ?dang sword_blend (export_path_of ?dang script_dir sword_blend)
      (world start) = Inl ?e"
    using d dangling_gate [of "[]"] by (simp add: example_export_paths w0)
  with d have r: "main_loop ?dang script_dir [sword_blend] ?r0 start =
      (Inl ?e, called (Get_category sword_blend) start)"
    by blast
  from g step same tie_gate [of "[]"] n x dangling_gate [of "[]"] r show ?thesis
    by simp
qed

text \<open>
  The claim as the specification states it fails when the output exists and has the
  modification time of the source: the gate does not skip, and the run exports the file.
\<close>

theorem staleness_tie_counterexample:
  "path_exists (fixture_system tie_fixture) sword_fbx [] = Inr True \<and>
   st_mtime (fixture_system tie_fixture) sword_blend [] = Inr 100 \<and>
   st_mtime (fixture_system tie_fixture) sword_fbx [] = Inr 100 \<and>
   fbx_is_newer (fixture_system tie_fixture) sword_blend sword_fbx [] = Inr False \<and>
   export_path_of (fixture_system tie_fixture) script_dir sword_blend = sword_fbx \<and>
   fst (main (fixture_system tie_fixture) script_dir start) =
     Inr (Some \<lparr>exported = 1, failed = 0, skipped = 0,
           files = [''/proj/ue5-client/Content/Models/Imported/Weapons/sword_01.fbx''],
           timestamp = ''2024-01-01T00:00:00'', total_files = 1\<rparr>)"
proof -
  have n: "fbx_is_newer (fixture_system tie_fixture) sword_blend sword_fbx [] = Inr False"
    by (simp add: fbx_is_newer_def tie_gate)
  with tie_run show ?thesis
    by (simp add: tie_gate example_export_paths)
qed

section \<open>What \<open>export_blend_to_fbx\<close> returns and calls\<close>







section \<open>The batch path and the validator\<close>


















section \<open>Failures of a single file\<close>









section \<open>Two sources with one output path\<close>







end
